theory Spec2Isabelle
  imports Complex_Main "HOL-Library.Word" "HOL-Library.Signed_Division" "HOL-Library.Finite_Map"
begin

unbundle bit_operations_syntax

text \<open>
  A shallow embedding of the encrypted-container functions (\<^verbatim>\<open>internal/crypto\<close>) and of
  the secure LAN transfer (\<^verbatim>\<open>internal/airdrop\<close>: device identity, signed handshake,
  chunk handler, status) of the file manager, followed by the properties proved of them.
  The first part holds the definitions, one per source function and in the order of the
  source files; the second part holds the lemmas and theorems.
\<close>

section \<open>Common conventions\<close>

text \<open>
  Byte slices (\<^verbatim>\<open>[]byte\<close>) are lists of 8-bit words. A slice that the source may leave
  \<^verbatim>\<open>nil\<close> and whose nil-ness is observable (JSON renders it as \<^verbatim>\<open>null\<close>) is a
  \<open>bytes option\<close>. Go's \<^verbatim>\<open>int\<close> and \<^verbatim>\<open>int64\<close> are mathematical integers that a
  64-bit build keeps in the range \<open>-2^63 .. 2^63 - 1\<close>; where a product can leave
  that range the wrap-around is written out with \<open>int64\<close>. Integer division and
  remainder truncate towards zero (\<open>sdiv\<close>, \<open>smod\<close>).

  A Go \<^verbatim>\<open>error\<close> is \<open>Error msg\<close>; a run-time panic is \<open>Panic msg\<close>. A function that
  can fail returns \<open>go_error + 'a\<close>.
\<close>

type_synonym byte = "8 word"
type_synonym bytes = "byte list"

datatype go_error = Error string | Panic string

definition int64 :: "int \<Rightarrow> int" where
  "int64 x = signed_take_bit 63 x"

definition bytes_of_string :: "string \<Rightarrow> bytes" where
  "bytes_of_string s = map of_char s"

section \<open>Protocol messages (protocol.go, secure\_client.go)\<close>

text \<open>
  Several structs of the source share field names (\<^verbatim>\<open>Index\<close>, \<^verbatim>\<open>SessionID\<close>,
  \<^verbatim>\<open>Size\<close>, \<^verbatim>\<open>Fingerprint\<close>, \<^verbatim>\<open>EphemeralPubKey\<close>, ...); the records prefix such a
  field with a short tag of its struct.
\<close>

record FileMetadata =
  Name :: string
  Size :: int
  Mime :: string

record HandshakeRequest =
  DeviceName :: string
  DeviceFingerprint :: string
  EphemeralPubKey :: "bytes option"
  FileMetadata :: FileMetadata
  Signature :: "bytes option"

record HandshakeResponse =
  Accepted :: bool
  resp_EphemeralPubKey :: "bytes option"
  resp_SessionID :: string
  Message :: string

record ChunkMetadata =
  cm_Index :: int
  cm_Total :: int
  cm_Size :: int
  cm_Checksum :: string
  cm_SessionID :: string

record ChunkAck =
  ack_Index :: int
  ack_SessionID :: string
  ack_Success :: bool
  ack_Error :: string

text \<open>
  \<^verbatim>\<open>float64\<close> values are kept exact where they are finite (rounding is not modelled);
  the IEEE special values that a division by zero produces are explicit.
\<close>

datatype float64 = Finite rat | NaN | PosInf | NegInf

text \<open>
  \<^verbatim>\<open>TransferStatus.ReceivedChunks\<close> is filled by ranging over a Go map, whose iteration
  order is unspecified; the model keeps the set of indices.
\<close>

record TransferStatus =
  stat_SessionID :: string
  stat_TotalChunks :: int
  stat_ReceivedChunks :: "int fset"
  stat_Progress :: float64
  stat_CanResume :: bool

text \<open>
  A tar entry: a directory or a regular file, with the name its header carries. The
  model's source trees hold nothing else.
\<close>

datatype tar_entry = TarDir string | TarReg string bytes

section \<open>Library primitives\<close>

text \<open>
  The packages the repository imports (\<^verbatim>\<open>crypto/sha256\<close>, \<^verbatim>\<open>crypto/cipher\<close>,
  \<^verbatim>\<open>crypto/ed25519\<close>, \<^verbatim>\<open>x/crypto/curve25519\<close>, \<^verbatim>\<open>x/crypto/argon2\<close>,
  \<^verbatim>\<open>encoding/json\<close>, \<^verbatim>\<open>archive/tar\<close>, \<^verbatim>\<open>compress/gzip\<close>) are not part of the
  repository. Their pure cores are parameters, collected in one record that every
  function of the model takes as its first argument; theorems hold for every choice of
  them. The length checks and panics that the Go packages document for their entry
  points are written out in the wrappers below, next to the call they guard.
  \<^item> \<open>sha256_Sum256\<close>: the digest (\<^verbatim>\<open>[32]byte\<close> in Go).
  \<^item> \<open>gcm_Seal key nonce plaintext\<close>: ciphertext followed by the tag;
    \<open>gcm_Open key nonce sealed\<close>: \<open>None\<close> when the tag does not verify.
  \<^item> \<open>ctr_KeyStream key iv n\<close>: the first \<open>n\<close> bytes of the AES-CTR key stream.
  \<^item> \<open>X25519 scalar point\<close>: \<open>None\<close> when the package returns an error.
  \<^item> \<open>ed25519_NewKeyFromSeed\<close>, \<open>ed25519_Sign\<close>, \<open>ed25519_Verify\<close>.
  \<^item> \<open>argon2_IDKey password salt time memory threads keyLen\<close>.
  \<^item> \<open>json_Marshal_HandshakeRequest\<close>: \<^verbatim>\<open>json.Marshal\<close> of a handshake request.
  \<^item> \<open>targz_Write\<close>: the bytes a \<^verbatim>\<open>tar.Writer\<close> over a \<^verbatim>\<open>gzip.Writer\<close> produces for a
    list of entries. \<open>targz_Read\<close>: \<open>None\<close> when \<^verbatim>\<open>gzip.NewReader\<close> fails; otherwise
    the directory and regular-file entries that \<^verbatim>\<open>tar.Reader.Next\<close> delivers (the
    \<^verbatim>\<open>switch\<close> of \<^verbatim>\<open>ExtractContainer\<close> skips every other kind), and whether the stream
    then ends with \<^verbatim>\<open>io.EOF\<close> (\<open>True\<close>) or with an error.
  JSON decoding happens at the boundary of the model: a handler receives the decoded
  value, or \<open>None\<close> where \<^verbatim>\<open>json.Unmarshal\<close> or \<^verbatim>\<open>Decode\<close> reports an error. The
  random source is a finite supply of bytes from the environment; \<open>rand_Read\<close> fails
  when the supply is missing or too short.
\<close>

record lib =
  sha256_Sum256 :: "bytes \<Rightarrow> bytes"
  gcm_Seal :: "bytes \<Rightarrow> bytes \<Rightarrow> bytes \<Rightarrow> bytes"
  gcm_Open :: "bytes \<Rightarrow> bytes \<Rightarrow> bytes \<Rightarrow> bytes option"
  ctr_KeyStream :: "bytes \<Rightarrow> bytes \<Rightarrow> nat \<Rightarrow> bytes"
  X25519 :: "bytes \<Rightarrow> bytes \<Rightarrow> bytes option"
  ed25519_NewKeyFromSeed :: "bytes \<Rightarrow> bytes \<times> bytes"
  ed25519_Sign :: "bytes \<Rightarrow> bytes \<Rightarrow> bytes"
  ed25519_Verify :: "bytes \<Rightarrow> bytes \<Rightarrow> bytes \<Rightarrow> bool"
  argon2_IDKey :: "bytes \<Rightarrow> bytes \<Rightarrow> 32 word \<Rightarrow> 32 word \<Rightarrow> 8 word \<Rightarrow> nat \<Rightarrow> bytes"
  json_Marshal_HandshakeRequest :: "HandshakeRequest \<Rightarrow> bytes"
  targz_Write :: "tar_entry list \<Rightarrow> bytes"
  targz_Read :: "bytes \<Rightarrow> (tar_entry list \<times> bool) option"

definition rand_Read :: "bytes option \<Rightarrow> nat \<Rightarrow> go_error + bytes" where
  "rand_Read src n =
     (case src of
        None \<Rightarrow> Inl (Error ''rand: read failed'')
      | Some bs \<Rightarrow> if length bs < n then Inl (Error ''unexpected EOF'') else Inr (take n bs))"

text \<open>\<^verbatim>\<open>hex.EncodeToString\<close>: two lower-case digits per byte, high nibble first.\<close>

definition hextable :: string where
  "hextable = ''0123456789abcdef''"

definition hex_byte :: "byte \<Rightarrow> string" where
  "hex_byte v = [hextable ! unat (drop_bit 4 v), hextable ! unat (v AND 0x0f)]"

definition hex_EncodeToString :: "bytes \<Rightarrow> string" where
  "hex_EncodeToString src = concat (map hex_byte src)"

text \<open>\<^verbatim>\<open>filepath.Join\<close> of a directory and one clean path element.\<close>

definition filepath_Join :: "string \<Rightarrow> string \<Rightarrow> string" where
  "filepath_Join dir elem =
     (if dir = [] then elem else if elem = [] then dir else dir @ ''/'' @ elem)"

text \<open>\<^verbatim>\<open>CalculateChunkChecksum\<close> (protocol.go, lines 53-56).\<close>

definition CalculateChunkChecksum :: "lib \<Rightarrow> bytes \<Rightarrow> string" where
  "CalculateChunkChecksum L data = hex_EncodeToString (sha256_Sum256 L data)"

section \<open>Device identity (identity source file)\<close>

record DeviceIdentity =
  PublicKey :: bytes
  PrivateKey :: bytes
  Fingerprint :: string

text \<open>
  \<^verbatim>\<open>generateFingerprint\<close>, lines 76-92. The loop variable \<open>i\<close> steps by two over the
  hex string; \<^verbatim>\<open>fingerprint[i : i+2]\<close> panics when it reaches past the end.
\<close>

function generateFingerprint_loop :: "string \<Rightarrow> nat \<Rightarrow> string \<Rightarrow> go_error + string" where
  "generateFingerprint_loop fingerprint i formatted =
     (if i < length fingerprint then
        (let formatted1 = (if i > 0 then formatted @ '':'' else formatted) in
         if length fingerprint < i + 2 then Inl (Panic ''slice bounds out of range'')
         else
           (let formatted2 = formatted1 @ take 2 (drop i fingerprint) in
            if i \<ge> 30 then Inr formatted2
            else generateFingerprint_loop fingerprint (i + 2) formatted2))
      else Inr formatted)"
  by pat_completeness auto
termination
  by (relation "measure (\<lambda>(fingerprint, i, formatted). length fingerprint - i)") auto

definition generateFingerprint :: "lib \<Rightarrow> bytes \<Rightarrow> go_error + string" where
  "generateFingerprint L pubKey =
     (let hash = sha256_Sum256 L pubKey;
          fingerprint = hex_EncodeToString hash
      in generateFingerprint_loop fingerprint 0 [])"

text \<open>
  What the operating system and the random source contribute to one call of
  \<^verbatim>\<open>LoadOrGenerateIdentity\<close>: the seed read by \<^verbatim>\<open>ed25519.GenerateKey\<close> (\<open>None\<close>: the
  read failed) and whether \<^verbatim>\<open>MkdirAll\<close> and the two \<^verbatim>\<open>WriteFile\<close> calls succeed. The
  file system is a map from paths to contents; a file that cannot be read is absent.
\<close>

record identity_env =
  rand_seed :: "bytes option"
  mkdir_ok :: bool
  write_pub_ok :: bool
  write_key_ok :: bool

type_synonym filesystem = "string \<rightharpoonup> bytes"

definition GenerateIdentity :: "lib \<Rightarrow> identity_env \<Rightarrow> go_error + DeviceIdentity" where
  "GenerateIdentity L env =
     (case rand_Read (rand_seed env) 32 of
        Inl e \<Rightarrow> Inl (Error ''failed to generate keypair'')
      | Inr seed \<Rightarrow>
          (let (pubKey, privKey) = ed25519_NewKeyFromSeed L seed in
           case generateFingerprint L pubKey of
             Inl e \<Rightarrow> Inl e
           | Inr fingerprint \<Rightarrow>
               Inr \<lparr>PublicKey = pubKey, PrivateKey = privKey, Fingerprint = fingerprint\<rparr>))"

text \<open>
  \<^verbatim>\<open>LoadOrGenerateIdentity\<close>, lines 37-73. \<open>generate_and_save\<close> is its second half
  (lines 53-72), which runs when one of the two key files cannot be read.
\<close>

definition generate_and_save ::
  "lib \<Rightarrow> identity_env \<Rightarrow> filesystem \<Rightarrow> string \<Rightarrow> string \<Rightarrow>
     (go_error + DeviceIdentity) \<times> filesystem" where
  "generate_and_save L env fs pubKeyPath privKeyPath =
     (case GenerateIdentity L env of
        Inl e \<Rightarrow> (Inl e, fs)
      | Inr identity \<Rightarrow>
          if \<not> mkdir_ok env then (Inl (Error ''failed to create data directory''), fs)
          else if \<not> write_pub_ok env then (Inl (Error ''failed to save public key''), fs)
          else
            (let fs1 = fs(pubKeyPath \<mapsto> PublicKey identity) in
             if \<not> write_key_ok env then (Inl (Error ''failed to save private key''), fs1)
             else (Inr identity, fs1(privKeyPath \<mapsto> PrivateKey identity))))"

definition LoadOrGenerateIdentity ::
  "lib \<Rightarrow> identity_env \<Rightarrow> filesystem \<Rightarrow> string \<Rightarrow> (go_error + DeviceIdentity) \<times> filesystem" where
  "LoadOrGenerateIdentity L env fs dataDir =
     (let pubKeyPath = filepath_Join dataDir ''device.pub'';
          privKeyPath = filepath_Join dataDir ''device.key''
      in case fs pubKeyPath of
           None \<Rightarrow> generate_and_save L env fs pubKeyPath privKeyPath
         | Some pubKeyData \<Rightarrow>
             (case fs privKeyPath of
                None \<Rightarrow> generate_and_save L env fs pubKeyPath privKeyPath
              | Some privKeyData \<Rightarrow>
                  (case generateFingerprint L pubKeyData of
                     Inl e \<Rightarrow> (Inl e, fs)
                   | Inr fingerprint \<Rightarrow>
                       (Inr \<lparr>PublicKey = pubKeyData, PrivateKey = privKeyData,
                             Fingerprint = fingerprint\<rparr>, fs))))"

text \<open>
  \<^verbatim>\<open>Sign\<close> and \<^verbatim>\<open>VerifySignature\<close>, lines 94-102. \<^verbatim>\<open>ed25519.Sign\<close> panics on a private
  key that is not 64 bytes long, \<^verbatim>\<open>ed25519.Verify\<close> on a public key that is not 32
  bytes long; a \<^verbatim>\<open>nil\<close> signature has length 0.
\<close>

definition Sign :: "lib \<Rightarrow> DeviceIdentity \<Rightarrow> bytes \<Rightarrow> go_error + bytes" where
  "Sign L identity data =
     (if length (PrivateKey identity) \<noteq> 64 then Inl (Panic ''ed25519: bad private key length'')
      else Inr (ed25519_Sign L (PrivateKey identity) data))"

definition VerifySignature :: "lib \<Rightarrow> bytes \<Rightarrow> bytes \<Rightarrow> bytes option \<Rightarrow> go_error + bool" where
  "VerifySignature L pubKey data signature =
     (if length pubKey \<noteq> 32 then Inl (Panic ''ed25519: bad public key length'')
      else Inr (ed25519_Verify L pubKey data (case signature of None \<Rightarrow> [] | Some sg \<Rightarrow> sg)))"

section \<open>Signed handshake requests (protocol.go)\<close>

text \<open>
  \<^verbatim>\<open>CreateHandshakeRequest\<close>, lines 59-72: the request is marshalled while its
  \<^verbatim>\<open>Signature\<close> is still \<^verbatim>\<open>nil\<close>, and the signature of those bytes is stored in it.
\<close>

definition CreateHandshakeRequest ::
  "lib \<Rightarrow> DeviceIdentity \<Rightarrow> string \<Rightarrow> bytes option \<Rightarrow> FileMetadata \<Rightarrow> go_error + HandshakeRequest" where
  "CreateHandshakeRequest L identity deviceName ephemeralPubKey metadata =
     (let req = \<lparr>DeviceName = deviceName, DeviceFingerprint = Fingerprint identity,
                 EphemeralPubKey = ephemeralPubKey, FileMetadata = metadata,
                 Signature = None\<rparr>;
          data = json_Marshal_HandshakeRequest L req
      in case Sign L identity data of
           Inl e \<Rightarrow> Inl e
         | Inr sg \<Rightarrow> Inr (req\<lparr>Signature := Some sg\<rparr>))"

text \<open>
  \<^verbatim>\<open>VerifyHandshakeRequest\<close>, lines 75-82, works through a pointer: it clears the
  signature, marshals, and puts the signature back. The model returns the verdict
  together with the request as the call leaves it.
\<close>

definition VerifyHandshakeRequest ::
  "lib \<Rightarrow> HandshakeRequest \<Rightarrow> bytes \<Rightarrow> (go_error + bool) \<times> HandshakeRequest" where
  "VerifyHandshakeRequest L req pubKey =
     (let signature = Signature req;
          req1 = req\<lparr>Signature := None\<rparr>;
          data = json_Marshal_HandshakeRequest L req1;
          req2 = req1\<lparr>Signature := signature\<rparr>
      in (VerifySignature L pubKey data signature, req2))"

section \<open>Chunk arithmetic (secure\_client.go, secure\_server.go)\<close>

text \<open>
  \<^verbatim>\<open>SendFile\<close>, lines 102-106:
  \<^verbatim>\<open>chunkSize := int64(4 * 1024 * 1024); totalChunks := int(fileInfo.Size() / chunkSize);
  if fileInfo.Size()%chunkSize != 0 { totalChunks++ }\<close>
\<close>

definition SendFile_totalChunks :: "int \<Rightarrow> int" where
  "SendFile_totalChunks fileSize =
     (let chunkSize = 4 * 1024 * 1024;
          totalChunks = fileSize sdiv chunkSize
      in if fileSize smod chunkSize \<noteq> 0 then totalChunks + 1 else totalChunks)"

text \<open>
  \<^verbatim>\<open>handleHandshake\<close>, lines 152-155:
  \<^verbatim>\<open>totalChunks := int(req.FileMetadata.Size / (4 * 1024 * 1024));
  if req.FileMetadata.Size%(4*1024*1024) != 0 { totalChunks++ }\<close>
\<close>

definition handleHandshake_totalChunks :: "int \<Rightarrow> int" where
  "handleHandshake_totalChunks sz =
     (let totalChunks = sz sdiv (4 * 1024 * 1024)
      in if sz smod (4 * 1024 * 1024) \<noteq> 0 then totalChunks + 1 else totalChunks)"

section \<open>Session keys and chunk encryption (secure\_client.go, key-exchange part)\<close>

definition Basepoint :: bytes where
  "Basepoint = 9 # replicate 31 0"

definition GenerateEphemeralKey :: "lib \<Rightarrow> bytes option \<Rightarrow> go_error + (bytes \<times> bytes)" where
  "GenerateEphemeralKey L rnd =
     (case rand_Read rnd 32 of
        Inl e \<Rightarrow> Inl e
      | Inr privateKey \<Rightarrow>
          (case X25519 L privateKey Basepoint of
             None \<Rightarrow> Inl (Error ''curve25519: bad input'')
           | Some publicKey \<Rightarrow> Inr (privateKey, publicKey)))"

definition DeriveSharedSecret :: "lib \<Rightarrow> bytes \<Rightarrow> bytes \<Rightarrow> go_error + bytes" where
  "DeriveSharedSecret L privateKey peerPublicKey =
     (case X25519 L privateKey peerPublicKey of
        None \<Rightarrow> Inl (Error ''curve25519: bad input'')
      | Some sharedSecret \<Rightarrow> Inr (sha256_Sum256 L sharedSecret))"

text \<open>
  \<^verbatim>\<open>aes.NewCipher\<close> returns an error unless the key has 16, 24 or 32 bytes; the block
  it returns is determined by the key. \<^verbatim>\<open>cipher.NewGCM\<close> accepts every AES block, and
  its nonce size is 12.
\<close>

definition aes_NewCipher :: "bytes \<Rightarrow> go_error + bytes" where
  "aes_NewCipher key =
     (if length key = 16 \<or> length key = 24 \<or> length key = 32 then Inr key
      else Inl (Error ''crypto/aes: invalid key size''))"

definition gcm_NonceSize :: nat where
  "gcm_NonceSize = 12"

definition EncryptChunk :: "lib \<Rightarrow> bytes option \<Rightarrow> bytes \<Rightarrow> bytes \<Rightarrow> go_error + bytes" where
  "EncryptChunk L rnd plaintext key =
     (case aes_NewCipher key of
        Inl e \<Rightarrow> Inl e
      | Inr block \<Rightarrow>
          (case rand_Read rnd gcm_NonceSize of
             Inl e \<Rightarrow> Inl e
           | Inr nonce \<Rightarrow> Inr (nonce @ gcm_Seal L block nonce plaintext)))"

definition DecryptChunk :: "lib \<Rightarrow> bytes \<Rightarrow> bytes \<Rightarrow> go_error + bytes" where
  "DecryptChunk L ciphertext key =
     (case aes_NewCipher key of
        Inl e \<Rightarrow> Inl e
      | Inr block \<Rightarrow>
          (let nonceSize = gcm_NonceSize in
           if length ciphertext < nonceSize then Inl (Error ''ciphertext too short'')
           else
             (let nonce = take nonceSize ciphertext;
                  ciphertext1 = drop nonceSize ciphertext
              in case gcm_Open L block nonce ciphertext1 of
                   None \<Rightarrow> Inl (Error ''cipher: message authentication failed'')
                 | Some plaintext \<Rightarrow> Inr plaintext)))"

section \<open>The receiving server (secure\_server.go)\<close>

text \<open>
  An open \<^verbatim>\<open>*os.File\<close> is the log of the positional writes made through it and a flag
  for \<^verbatim>\<open>Close\<close>. \<^verbatim>\<open>WriteAt\<close> refuses a negative offset before it touches the file, and
  does nothing for an empty slice; a write the operating system refuses (\<open>disk_ok\<close>
  false) leaves the log as it was.
\<close>

record os_File =
  file_name :: string
  file_writes :: "(int \<times> bytes) list"
  file_closed :: bool

definition os_Create :: "bool \<Rightarrow> string \<Rightarrow> go_error + os_File" where
  "os_Create create_ok name =
     (if create_ok then Inr \<lparr>file_name = name, file_writes = [], file_closed = False\<rparr>
      else Inl (Error ''open: cannot create file''))"

definition File_WriteAt :: "bool \<Rightarrow> os_File \<Rightarrow> bytes \<Rightarrow> int \<Rightarrow> go_error + os_File" where
  "File_WriteAt disk_ok f b off =
     (if off < 0 then Inl (Error ''writeat: negative offset'')
      else if b = [] then Inr f
      else if file_closed f then Inl (Error ''write: file already closed'')
      else if \<not> disk_ok then Inl (Error ''write: input/output error'')
      else Inr (f\<lparr>file_writes := file_writes f @ [(off, b)]\<rparr>))"

definition File_Close :: "os_File \<Rightarrow> os_File" where
  "File_Close f = f\<lparr>file_closed := True\<rparr>"

record TransferSession =
  sess_SessionID :: string
  sess_SenderName :: string
  sess_Fingerprint :: string
  sess_Metadata :: FileMetadata
  sess_SessionKey :: bytes
  sess_TotalChunks :: int
  sess_ReceivedChunks :: "(int, bool) fmap"
  sess_FilePath :: string
  sess_File :: os_File

text \<open>
  The server. \<open>onProgress\<close> tells whether a progress handler is installed, and
  \<open>progress_calls\<close> lists the calls made to it. \<open>closed_sessions\<close> is not a field of the
  source: it keeps the sessions that were removed from the table, so that the
  \<^verbatim>\<open>Close\<close> of their files stays visible. Handlers run one at a time.
\<close>

record SecureServer =
  port :: int
  downloadDir :: string
  identity :: DeviceIdentity
  deviceName :: string
  onRequest :: "HandshakeRequest \<Rightarrow> bool"
  onProgress :: bool
  sessions :: "string \<rightharpoonup> TransferSession"
  progress_calls :: "(string \<times> int \<times> int) list"
  closed_sessions :: "TransferSession list"

text \<open>
  What arrives with a request. A handshake brings the decoded body (\<open>None\<close>: the JSON
  decoder failed), and the environment supplies the random bytes of the ephemeral key,
  the fresh UUID and whether \<^verbatim>\<open>os.Create\<close> succeeds. A chunk brings the decoded
  \<^verbatim>\<open>X-Chunk-Metadata\<close> header (\<open>None\<close>: \<^verbatim>\<open>json.Unmarshal\<close> failed), the body
  (\<open>None\<close>: \<^verbatim>\<open>io.ReadAll\<close> failed) and whether the disk accepts the write.
\<close>

record handshake_http =
  hs_Method :: string
  hs_Body :: "HandshakeRequest option"
  hs_rand :: "bytes option"
  hs_uuid :: string
  hs_create_ok :: bool

record chunk_http =
  ch_Method :: string
  ch_Metadata :: "ChunkMetadata option"
  ch_Body :: "bytes option"
  ch_disk_ok :: bool

datatype http_request =
    ReqPing
  | ReqHandshake handshake_http
  | ReqChunk chunk_http
  | ReqStatus string

text \<open>
  A response is an \<^verbatim>\<open>http.Error\<close> with its status code and text, or status 200 with
  the JSON encoding of a value, written here as the value, or status 200 with an empty
  body, which is what the client receives when the handler returns without having
  written anything. The ping, handshake and ACK values hold strings, booleans,
  integers and byte slices only, which \<^verbatim>\<open>encoding/json\<close> always encodes.
\<close>

datatype http_response =
    HttpError nat string
  | RespPing string string
  | RespHandshake HandshakeResponse
  | RespAck ChunkAck
  | RespStatus TransferStatus
  | RespEmpty



definition NewSecureServer ::
  "lib \<Rightarrow> identity_env \<Rightarrow> filesystem \<Rightarrow> string \<Rightarrow> int \<Rightarrow> string \<Rightarrow> string \<Rightarrow>
     (go_error + SecureServer) \<times> filesystem" where
  "NewSecureServer L env fs homeDir prt dir name =
     (let identityDir = filepath_Join (filepath_Join homeDir ''.sfm'') ''airdrop'' in
      case LoadOrGenerateIdentity L env fs identityDir of
        (Inl e, fs1) \<Rightarrow> (Inl (Error ''failed to load identity''), fs1)
      | (Inr ident, fs1) \<Rightarrow>
          (Inr \<lparr>port = prt, downloadDir = dir, identity = ident, deviceName = name,
                 onRequest = (\<lambda>req. True), onProgress = False, sessions = Map.empty,
                 progress_calls = [], closed_sessions = []\<rparr>, fs1))"

definition handlePing :: "SecureServer \<Rightarrow> http_response \<times> SecureServer" where
  "handlePing s = (RespPing (deviceName s) (Fingerprint (identity s)), s)"

text \<open>\<^verbatim>\<open>handleHandshake\<close>, lines 107-192.\<close>

definition handleHandshake ::
  "lib \<Rightarrow> SecureServer \<Rightarrow> handshake_http \<Rightarrow> http_response \<times> SecureServer" where
  "handleHandshake L s r =
     (if hs_Method r \<noteq> ''POST'' then (HttpError 405 ''Method not allowed'', s)
      else
        (case hs_Body r of
           None \<Rightarrow> (HttpError 400 ''Invalid request'', s)
         | Some req \<Rightarrow>
             (if \<not> onRequest s req then
                (RespHandshake \<lparr>Accepted = False, resp_EphemeralPubKey = None,
                                resp_SessionID = [], Message = ''Transfer rejected by user''\<rparr>, s)
              else
                (case GenerateEphemeralKey L (hs_rand r) of
                   Inl e \<Rightarrow> (HttpError 500 ''Failed to generate key'', s)
                 | Inr (privKey, pubKey) \<Rightarrow>
                     (case DeriveSharedSecret L privKey
                             (case EphemeralPubKey req of None \<Rightarrow> [] | Some k \<Rightarrow> k) of
                        Inl e \<Rightarrow> (HttpError 500 ''Failed to derive session key'', s)
                      | Inr sessionKey \<Rightarrow>
                          (let sessionID = hs_uuid r;
                               totalChunks = handleHandshake_totalChunks (Size (FileMetadata req));
                               filePath = filepath_Join (downloadDir s) (Name (FileMetadata req))
                           in (case os_Create (hs_create_ok r) filePath of
                                 Inl e \<Rightarrow> (HttpError 500 ''Failed to create file'', s)
                               | Inr file \<Rightarrow>
                                   (let session =
                                          \<lparr>sess_SessionID = sessionID,
                                           sess_SenderName = DeviceName req,
                                           sess_Fingerprint = DeviceFingerprint req,
                                           sess_Metadata = FileMetadata req,
                                           sess_SessionKey = sessionKey,
                                           sess_TotalChunks = totalChunks,
                                           sess_ReceivedChunks = fmempty,
                                           sess_FilePath = filePath,
                                           sess_File = file\<rparr>
                                    in (RespHandshake
                                          \<lparr>Accepted = True, resp_EphemeralPubKey = Some pubKey,
                                           resp_SessionID = sessionID,
                                           Message = ''Transfer accepted''\<rparr>,
                                        s\<lparr>sessions := (sessions s)(sessionID \<mapsto> session)\<rparr>)))))))))"

text \<open>
  \<^verbatim>\<open>handleChunk\<close>, lines 194-289. The write offset is the \<^verbatim>\<open>int64\<close> product
  \<^verbatim>\<open>int64(metadata.Index) * (4 * 1024 * 1024)\<close>, which wraps around. After the ACK the
  completion check compares the number of keys of \<^verbatim>\<open>ReceivedChunks\<close> with
  \<^verbatim>\<open>TotalChunks\<close>; on equality the file is closed and the session deleted.
\<close>

definition transfer_complete :: "TransferSession \<Rightarrow> bool" where
  "transfer_complete session =
     (int (fcard (fmdom (sess_ReceivedChunks session))) = sess_TotalChunks session)"

definition handleChunk ::
  "lib \<Rightarrow> SecureServer \<Rightarrow> chunk_http \<Rightarrow> http_response \<times> SecureServer" where
  "handleChunk L s r =
     (if ch_Method r \<noteq> ''POST'' then (HttpError 405 ''Method not allowed'', s)
      else
        (case ch_Metadata r of
           None \<Rightarrow> (HttpError 400 ''Invalid chunk metadata'', s)
         | Some metadata \<Rightarrow>
             (case sessions s (cm_SessionID metadata) of
                None \<Rightarrow> (HttpError 400 ''Invalid session'', s)
              | Some session \<Rightarrow>
                  (case ch_Body r of
                     None \<Rightarrow> (HttpError 500 ''Failed to read chunk'', s)
                   | Some encryptedData \<Rightarrow>
                       (case DecryptChunk L encryptedData (sess_SessionKey session) of
                          Inl e \<Rightarrow> (HttpError 500 ''Failed to decrypt chunk'', s)
                        | Inr decryptedData \<Rightarrow>
                            (if CalculateChunkChecksum L decryptedData \<noteq> cm_Checksum metadata then
                               (RespAck \<lparr>ack_Index = cm_Index metadata,
                                         ack_SessionID = cm_SessionID metadata,
                                         ack_Success = False,
                                         ack_Error = ''Checksum mismatch''\<rparr>, s)
                             else
                               (let offset = int64 (cm_Index metadata * (4 * 1024 * 1024)) in
                                (case File_WriteAt (ch_disk_ok r) (sess_File session)
                                        decryptedData offset of
                                   Inl e \<Rightarrow>
                                     (RespAck \<lparr>ack_Index = cm_Index metadata,
                                               ack_SessionID = cm_SessionID metadata,
                                               ack_Success = False,
                                               ack_Error = ''Failed to write chunk''\<rparr>, s)
                                 | Inr file1 \<Rightarrow>
                                     (let session1 = session
                                            \<lparr>sess_File := file1,
                                             sess_ReceivedChunks :=
                                               fmupd (cm_Index metadata) True
                                                 (sess_ReceivedChunks session)\<rparr>;
                                          received =
                                            int (fcard (fmdom (sess_ReceivedChunks session1)));
                                          s1 = s\<lparr>sessions :=
                                                   (sessions s)(cm_SessionID metadata \<mapsto> session1),
                                                 progress_calls :=
                                                   (if onProgress s
                                                    then progress_calls s @
                                                           [(Name (sess_Metadata session1), received,
                                                             sess_TotalChunks session1)]
                                                    else progress_calls s)\<rparr>;
                                          ack = RespAck \<lparr>ack_Index = cm_Index metadata,
                                                         ack_SessionID = cm_SessionID metadata,
                                                         ack_Success = True,
                                                         ack_Error = []\<rparr>
                                      in (if received = sess_TotalChunks session1 then
                                            (ack,
                                             s1\<lparr>sessions :=
                                                  (sessions s1)(cm_SessionID metadata := None),
                                                closed_sessions :=
                                                  closed_sessions s1 @
                                                    [session1\<lparr>sess_File := File_Close file1\<rparr>]\<rparr>)
                                          else (ack, s1)))))))))))"

text \<open>
  \<^verbatim>\<open>handleStatus\<close>, lines 291-318. \<^verbatim>\<open>float64(a) / float64(b)\<close> is NaN for \<open>0 / 0\<close> and
  an infinity for any other division by zero; multiplying by 100 keeps these.
\<close>

definition float64_div :: "int \<Rightarrow> int \<Rightarrow> float64" where
  "float64_div a b =
     (if b = 0 then (if a = 0 then NaN else if 0 < a then PosInf else NegInf)
      else Finite (of_int a / of_int b))"

definition float64_times100 :: "float64 \<Rightarrow> float64" where
  "float64_times100 x = (case x of Finite q \<Rightarrow> Finite (q * 100) | NaN \<Rightarrow> NaN
                         | PosInf \<Rightarrow> PosInf | NegInf \<Rightarrow> NegInf)"

text \<open>The value \<^verbatim>\<open>status\<close> built at lines 309-315.\<close>

definition handleStatus_status :: "string \<Rightarrow> TransferSession \<Rightarrow> TransferStatus" where
  "handleStatus_status sessionID session =
     (let receivedChunks = fmdom (sess_ReceivedChunks session) in
      \<lparr>stat_SessionID = sessionID,
       stat_TotalChunks = sess_TotalChunks session,
       stat_ReceivedChunks = receivedChunks,
       stat_Progress =
         float64_times100
           (float64_div (int (fcard receivedChunks)) (sess_TotalChunks session)),
       stat_CanResume = True\<rparr>)"

text \<open>
  \<^verbatim>\<open>json.NewEncoder(w).Encode(status)\<close>, line 317. \<^verbatim>\<open>encoding/json\<close> encodes the whole
  value into a buffer before it writes to \<^verbatim>\<open>w\<close>, and it refuses a \<^verbatim>\<open>float64\<close> that is
  NaN or an infinity: \<^verbatim>\<open>Encode\<close> then returns an \<^verbatim>\<open>UnsupportedValueError\<close> and nothing
  has been written. The handler drops that error and returns, so the response is the
  implicit status 200 with an empty body.
\<close>

definition json_Encode_TransferStatus :: "TransferStatus \<Rightarrow> http_response" where
  "json_Encode_TransferStatus status =
     (case stat_Progress status of
        Finite q \<Rightarrow> RespStatus status
      | NaN \<Rightarrow> RespEmpty
      | PosInf \<Rightarrow> RespEmpty
      | NegInf \<Rightarrow> RespEmpty)"

definition handleStatus :: "SecureServer \<Rightarrow> string \<Rightarrow> http_response \<times> SecureServer" where
  "handleStatus s sessionID =
     (case sessions s sessionID of
        None \<Rightarrow> (HttpError 404 ''Session not found'', s)
      | Some session \<Rightarrow>
          (let status = handleStatus_status sessionID session
           in (json_Encode_TransferStatus status, s)))"

text \<open>The routes of \<^verbatim>\<open>Start\<close>, and a run of the server over a list of requests.\<close>

fun handle :: "lib \<Rightarrow> SecureServer \<Rightarrow> http_request \<Rightarrow> http_response \<times> SecureServer" where
  "handle L s ReqPing = handlePing s"
| "handle L s (ReqHandshake r) = handleHandshake L s r"
| "handle L s (ReqChunk r) = handleChunk L s r"
| "handle L s (ReqStatus sessionID) = handleStatus s sessionID"

fun run :: "lib \<Rightarrow> SecureServer \<Rightarrow> http_request list \<Rightarrow> SecureServer" where
  "run L s [] = s"
| "run L s (r # rs) = run L (snd (handle L s r)) rs"

fun is_chunk_or_status :: "http_request \<Rightarrow> bool" where
  "is_chunk_or_status (ReqChunk r) = True"
| "is_chunk_or_status (ReqStatus sessionID) = True"
| "is_chunk_or_status r = False"


section \<open>Stream encryption (crypto/encryption.go)\<close>

text \<open>
  \<^verbatim>\<open>DeriveKey\<close>, lines 20-22. \<^verbatim>\<open>argon2.IDKey\<close> panics when the number of passes or the
  number of threads is zero.
\<close>

definition KeySize :: nat where
  "KeySize = 32"

definition SaltSize :: nat where
  "SaltSize = 32"

definition NonceSize :: nat where
  "NonceSize = 12"

definition DeriveKey :: "lib \<Rightarrow> string \<Rightarrow> bytes \<Rightarrow> 32 word \<Rightarrow> 32 word \<Rightarrow> 8 word \<Rightarrow> go_error + bytes" where
  "DeriveKey L password salt time memory threads =
     (if time < 1 then Inl (Panic ''argon2: number of rounds too small'')
      else if threads < 1 then Inl (Panic ''argon2: parallelism degree too low'')
      else Inr (argon2_IDKey L (bytes_of_string password) salt time memory threads KeySize))"

definition GenerateSalt :: "bytes option \<Rightarrow> go_error + bytes" where
  "GenerateSalt rnd =
     (case rand_Read rnd SaltSize of
        Inl e \<Rightarrow> Inl (Error ''failed to generate salt'')
      | Inr salt \<Rightarrow> Inr salt)"

text \<open>
  \<^verbatim>\<open>cipher.NewCTR(block, iv)\<close> requires an IV as long as the block, 16 bytes for AES,
  and panics otherwise. The stream it returns XORs its input with the key stream.
\<close>

definition aes_BlockSize :: nat where
  "aes_BlockSize = 16"

definition cipher_NewCTR :: "bytes \<Rightarrow> bytes \<Rightarrow> go_error + (bytes \<times> bytes)" where
  "cipher_NewCTR block iv =
     (if length iv \<noteq> aes_BlockSize
      then Inl (Panic ''cipher.NewCTR: IV length must equal block size'')
      else Inr (block, iv))"

definition NewCTR_panic :: go_error where
  "NewCTR_panic = Panic ''cipher.NewCTR: IV length must equal block size''"

definition XORKeyStream :: "lib \<Rightarrow> bytes \<times> bytes \<Rightarrow> bytes \<Rightarrow> bytes" where
  "XORKeyStream L stream src =
     map2 (XOR) src (ctr_KeyStream L (fst stream) (snd stream) (length src))"

text \<open>
  \<^verbatim>\<open>EncryptStream\<close>, lines 81-112. The reader is a buffer in memory; \<open>writer_ok\<close> tells
  whether the writer accepts what is written to it. The result is the error, if any,
  together with the bytes that reached the writer before it: the nonce is written before
  the stream is set up. The nonce has \<^verbatim>\<open>gcm.NonceSize()\<close> bytes.
\<close>

definition EncryptStream ::
  "lib \<Rightarrow> bytes option \<Rightarrow> bool \<Rightarrow> bytes \<Rightarrow> bytes \<Rightarrow> go_error option \<times> bytes" where
  "EncryptStream L rnd writer_ok reader key =
     (case aes_NewCipher key of
        Inl e \<Rightarrow> (Some (Error ''failed to create cipher''), [])
      | Inr block \<Rightarrow>
          (case rand_Read rnd gcm_NonceSize of
             Inl e \<Rightarrow> (Some (Error ''failed to generate nonce''), [])
           | Inr nonce \<Rightarrow>
               (if \<not> writer_ok then (Some (Error ''failed to write nonce''), [])
                else
                  (case cipher_NewCTR block nonce of
                     Inl e \<Rightarrow> (Some e, nonce)
                   | Inr stream \<Rightarrow> (None, nonce @ XORKeyStream L stream reader)))))"

text \<open>
  \<^verbatim>\<open>DecryptStream\<close>, lines 115-136. The reader is the rest of the container file and the
  writer a buffer in memory; the only read error is the end of the input. No tag is read
  or checked.
\<close>

definition DecryptStream :: "lib \<Rightarrow> bytes \<Rightarrow> bytes \<Rightarrow> go_error + bytes" where
  "DecryptStream L reader key =
     (case aes_NewCipher key of
        Inl e \<Rightarrow> Inl (Error ''failed to create cipher'')
      | Inr block \<Rightarrow>
          (if length reader < NonceSize then Inl (Error ''failed to read nonce'')
           else
             (let nonce = take NonceSize reader in
              case cipher_NewCTR block nonce of
                Inl e \<Rightarrow> Inl e
              | Inr stream \<Rightarrow> Inr (XORKeyStream L stream (drop NonceSize reader)))))"

section \<open>Containers (crypto/container.go)\<close>

definition MagicBytes :: bytes where
  "MagicBytes = [0x53, 0x46, 0x4D, 0x00]"

definition Version :: "32 word" where
  "Version = 1"

definition HeaderSize :: nat where
  "HeaderSize = 64"

record ContainerHeader =
  Magic :: bytes
  hdr_Version :: "32 word"
  Salt :: bytes
  Argon2Time :: "32 word"
  Argon2Memory :: "32 word"
  Argon2Threads :: "8 word"
  Reserved :: bytes

text \<open>
  \<^verbatim>\<open>binary.Write\<close> and \<^verbatim>\<open>binary.Read\<close> with \<^verbatim>\<open>binary.LittleEndian\<close>: the fields in
  order, without padding, 64 bytes. \<^verbatim>\<open>copy\<close> into a fixed array keeps the array's
  length.
\<close>

definition le32 :: "32 word \<Rightarrow> bytes" where
  "le32 w = [ucast w, ucast (drop_bit 8 w), ucast (drop_bit 16 w), ucast (drop_bit 24 w)]"

definition from_le32 :: "bytes \<Rightarrow> 32 word" where
  "from_le32 b =
     ucast (b ! 0) OR push_bit 8 (ucast (b ! 1)) OR push_bit 16 (ucast (b ! 2)) OR
     push_bit 24 (ucast (b ! 3))"

definition copy_into :: "nat \<Rightarrow> bytes \<Rightarrow> bytes" where
  "copy_into n src = take n (src @ replicate n 0)"

definition binary_Write_header :: "ContainerHeader \<Rightarrow> bytes" where
  "binary_Write_header h =
     copy_into 4 (Magic h) @ le32 (hdr_Version h) @ copy_into 32 (Salt h) @
     le32 (Argon2Time h) @ le32 (Argon2Memory h) @ [Argon2Threads h] @ copy_into 15 (Reserved h)"

definition binary_Read_header :: "bytes \<Rightarrow> go_error + (ContainerHeader \<times> bytes)" where
  "binary_Read_header d =
     (if length d < HeaderSize then Inl (Error (if d = [] then ''EOF'' else ''unexpected EOF''))
      else Inr (\<lparr>Magic = take 4 d,
                 hdr_Version = from_le32 (take 4 (drop 4 d)),
                 Salt = take 32 (drop 8 d),
                 Argon2Time = from_le32 (take 4 (drop 40 d)),
                 Argon2Memory = from_le32 (take 4 (drop 44 d)),
                 Argon2Threads = d ! 48,
                 Reserved = take 15 (drop 49 d)\<rparr>, drop HeaderSize d))"

text \<open>
  The tree found at the source path: a regular file, or a directory with its entries in
  the lexical order in which \<^verbatim>\<open>filepath.Walk\<close> visits them. \<open>walk\<close> lists the paths and
  nodes that \<^verbatim>\<open>filepath.Walk\<close> passes to its callback.
\<close>

datatype fsnode = RegFile bytes | Directory "(string \<times> fsnode) list"

fun walk :: "string \<Rightarrow> fsnode \<Rightarrow> (string \<times> fsnode) list" where
  "walk path (RegFile content) = [(path, RegFile content)]"
| "walk path (Directory entries) =
     (path, Directory entries) #
       concat (map (\<lambda>(name, node). walk (path @ ''/'' @ name) node) entries)"

text \<open>
  \<^verbatim>\<open>filepath.Base\<close>: the last element of the path, after trailing separators are
  removed. \<^verbatim>\<open>filepath.Rel\<close> for a path that \<open>walk\<close> reached from \<open>source\<close>.
\<close>

definition strip_trailing_slashes :: "string \<Rightarrow> string" where
  "strip_trailing_slashes path = rev (dropWhile (\<lambda>c. c = CHR ''/'') (rev path))"

definition filepath_Base :: "string \<Rightarrow> string" where
  "filepath_Base path =
     (if path = [] then ''.''
      else
        (let stripped = strip_trailing_slashes path;
             base = rev (takeWhile (\<lambda>c. c \<noteq> CHR ''/'') (rev stripped))
         in if base = [] then ''/'' else base))"

definition filepath_Rel :: "string \<Rightarrow> string \<Rightarrow> string" where
  "filepath_Rel source path =
     (if path = source then ''.'' else drop (length source + 1) path)"

text \<open>
  \<^verbatim>\<open>addToArchive\<close>, lines 157-195: the callback of \<^verbatim>\<open>filepath.Walk\<close> names every entry
  \<^verbatim>\<open>filepath.Base(path)\<close> when \<^verbatim>\<open>baseDir\<close> is empty, and \<^verbatim>\<open>baseDir\<close> joined with the
  relative path otherwise. A source path at which nothing is found makes \<^verbatim>\<open>Walk\<close>
  report the \<^verbatim>\<open>Lstat\<close> error; the source tree is otherwise readable.
\<close>

definition archive_entry :: "string \<Rightarrow> string \<Rightarrow> string \<times> fsnode \<Rightarrow> tar_entry" where
  "archive_entry source baseDir visited =
     (let path = fst visited;
          name = (if baseDir \<noteq> [] then filepath_Join baseDir (filepath_Rel source path)
                  else filepath_Base path)
      in case snd visited of
           Directory entries \<Rightarrow> TarDir name
         | RegFile content \<Rightarrow> TarReg name content)"

definition addToArchive :: "fsnode option \<Rightarrow> string \<Rightarrow> string \<Rightarrow> go_error + tar_entry list" where
  "addToArchive tree source baseDir =
     (case tree of
        None \<Rightarrow> Inl (Error ''lstat: no such file or directory'')
      | Some node \<Rightarrow> Inr (map (archive_entry source baseDir) (walk source node)))"

text \<open>
  What the environment contributes to \<^verbatim>\<open>CreateContainer\<close>: the random bytes of the
  salt and of the nonce, whether the container file can be created, and whether it
  accepts what is written to it.
\<close>

record container_env =
  salt_rand :: "bytes option"
  nonce_rand :: "bytes option"
  create_ok :: bool
  write_ok :: bool

text \<open>
  \<^verbatim>\<open>fmt.Errorf("...: %w", err)\<close> puts a context in front of an error; a panic is not an
  error value and passes through.
\<close>

fun wrap_error :: "string \<Rightarrow> go_error \<Rightarrow> go_error" where
  "wrap_error context (Error msg) = Error (context @ '': '' @ msg)"
| "wrap_error context (Panic msg) = Panic msg"

text \<open>
  \<^verbatim>\<open>CreateContainer\<close>, lines 32-82. The result is the error, if any, and the file
  system, in which the container file holds whatever was written before the function
  returned or panicked.
\<close>

definition CreateContainer ::
  "lib \<Rightarrow> container_env \<Rightarrow> fsnode option \<Rightarrow> filesystem \<Rightarrow> string \<Rightarrow> string \<Rightarrow> string \<Rightarrow>
     32 word \<Rightarrow> 32 word \<Rightarrow> 8 word \<Rightarrow> go_error option \<times> filesystem" where
  "CreateContainer L env tree fs sourcePath containerPath password argon2Time argon2Memory argon2Threads =
     (case GenerateSalt (salt_rand env) of
        Inl e \<Rightarrow> (Some e, fs)
      | Inr salt \<Rightarrow>
          (case DeriveKey L password salt argon2Time argon2Memory argon2Threads of
             Inl e \<Rightarrow> (Some e, fs)
           | Inr key \<Rightarrow>
               (if \<not> create_ok env then (Some (Error ''failed to create container''), fs)
                else
                  (let header = \<lparr>Magic = copy_into 4 MagicBytes, hdr_Version = Version,
                                  Salt = copy_into 32 salt, Argon2Time = argon2Time,
                                  Argon2Memory = argon2Memory, Argon2Threads = argon2Threads,
                                  Reserved = replicate 15 0\<rparr>;
                       written = binary_Write_header header
                   in if \<not> write_ok env then
                        (Some (Error ''failed to write header''), fs(containerPath \<mapsto> []))
                      else
                        (case addToArchive tree sourcePath [] of
                           Inl e \<Rightarrow> (Some e, fs(containerPath \<mapsto> written))
                         | Inr entries \<Rightarrow>
                             (let buf = targz_Write L entries in
                              (case EncryptStream L (nonce_rand env) (write_ok env) buf key of
                                 (Some e, out) \<Rightarrow>
                                   (Some (wrap_error ''failed to encrypt data'' e),
                                    fs(containerPath \<mapsto> written @ out))
                               | (None, out) \<Rightarrow>
                                   (None, fs(containerPath \<mapsto> written @ out)))))))))"

text \<open>
  What extraction puts under the output path: directories and files by path.
  \<^verbatim>\<open>MkdirAll\<close> fails on a path that is a file, \<^verbatim>\<open>os.Create\<close> on a path that is a
  directory; the output is otherwise writable.
\<close>

datatype fsobj = DirObj | FileObj bytes

type_synonym outfs = "string \<rightharpoonup> fsobj"

fun extract_entries :: "string \<Rightarrow> tar_entry list \<Rightarrow> outfs \<Rightarrow> go_error option \<times> outfs" where
  "extract_entries outputPath [] out = (None, out)"
| "extract_entries outputPath (TarDir name # rest) out =
     (let target = filepath_Join outputPath name in
      case out target of
        Some (FileObj content) \<Rightarrow> (Some (Error ''failed to create directory''), out)
      | _ \<Rightarrow> extract_entries outputPath rest (out(target \<mapsto> DirObj)))"
| "extract_entries outputPath (TarReg name content # rest) out =
     (let target = filepath_Join outputPath name in
      case out target of
        Some DirObj \<Rightarrow> (Some (Error ''failed to create file''), out)
      | _ \<Rightarrow> extract_entries outputPath rest (out(target \<mapsto> FileObj content)))"

text \<open>
  \<^verbatim>\<open>ExtractContainer\<close>, lines 85-155. The result is the error, if any, the output tree,
  and the list of calls made to \<^verbatim>\<open>DeriveKey\<close> (password, salt, time, memory, threads).
\<close>

type_synonym kdf_call = "string \<times> bytes \<times> 32 word \<times> 32 word \<times> 8 word"

definition ExtractContainer ::
  "lib \<Rightarrow> filesystem \<Rightarrow> outfs \<Rightarrow> string \<Rightarrow> string \<Rightarrow> string \<Rightarrow>
     go_error option \<times> outfs \<times> kdf_call list" where
  "ExtractContainer L fs out containerPath outputPath password =
     (case fs containerPath of
        None \<Rightarrow> (Some (Error ''failed to open container''), out, [])
      | Some file \<Rightarrow>
          (case binary_Read_header file of
             Inl e \<Rightarrow> (Some (wrap_error ''failed to read header'' e), out, [])
           | Inr (header, rest) \<Rightarrow>
               (if Magic header \<noteq> MagicBytes then
                  (Some (Error ''invalid container format''), out, [])
                else
                  (let call = (password, Salt header, Argon2Time header, Argon2Memory header,
                               Argon2Threads header)
                   in (case DeriveKey L password (Salt header) (Argon2Time header)
                              (Argon2Memory header) (Argon2Threads header) of
                         Inl e \<Rightarrow> (Some e, out, [call])
                       | Inr key \<Rightarrow>
                           (case DecryptStream L rest key of
                              Inl e \<Rightarrow>
                                (Some (wrap_error ''failed to decrypt data (wrong password?)'' e),
                                 out, [call])
                            | Inr buf \<Rightarrow>
                                (case targz_Read L buf of
                                   None \<Rightarrow> (Some (Error ''failed to create gzip reader''), out, [call])
                                 | Some (entries, eof) \<Rightarrow>
                                     (case extract_entries outputPath entries out of
                                        (Some e, out1) \<Rightarrow> (Some e, out1, [call])
                                      | (None, out1) \<Rightarrow>
                                          (if eof then (None, out1, [call])
                                           else (Some (Error ''failed to read tar''), out1,
                                                 [call]))))))))))"

text \<open>
  The error kinds of the specification, read off the messages: an invalid format is
  the message of line 101, an authentication failure is an error under the context of
  line 110.
\<close>

definition InvalidFormat :: "go_error option \<Rightarrow> bool" where
  "InvalidFormat r = (r = Some (Error ''invalid container format''))"

definition AuthenticationFailed :: "go_error option \<Rightarrow> bool" where
  "AuthenticationFailed r =
     (case r of
        Some (Error msg) \<Rightarrow>
          take (length ''failed to decrypt data (wrong password?)'') msg =
            ''failed to decrypt data (wrong password?)''
      | _ \<Rightarrow> False)"

text \<open>Reading a response: is it a chunk ACK that reports success?\<close>

fun is_success_ack :: "http_response \<Rightarrow> bool" where
  "is_success_ack (RespAck ack) = ack_Success ack"
| "is_success_ack resp = False"



text \<open>A session with no chunks to wait for whose file is still open.\<close>

definition zero_chunk_session :: "SecureServer \<Rightarrow> string \<Rightarrow> bool" where
  "zero_chunk_session s sid =
     (\<exists>sess. sessions s sid = Some sess \<and> sess_TotalChunks sess = 0 \<and> \<not> file_closed (sess_File sess))"

section \<open>Sample inputs\<close>

text \<open>
  Concrete inputs on which the theorems below are instantiated. \<open>sample_lib\<close> stands in
  for the library primitives with functions simple enough to evaluate: the digest pads
  or cuts its input to 32 bytes, the GCM tag is the first 16 bytes of key and nonce,
  a signature is the public half of the private key followed by the padded message,
  the archive writer concatenates names and contents, and the archive reader accepts
  nothing.
\<close>

definition sample_lib :: lib where
  "sample_lib =
     \<lparr>sha256_Sum256 = (\<lambda>data. take 32 (data @ replicate 32 0)),
      gcm_Seal = (\<lambda>key nonce plaintext. plaintext @ take 16 (key @ nonce)),
      gcm_Open = (\<lambda>key nonce sealed.
         if 16 \<le> length sealed \<and> drop (length sealed - 16) sealed = take 16 (key @ nonce)
         then Some (take (length sealed - 16) sealed) else None),
      ctr_KeyStream = (\<lambda>key iv n. take n (key @ iv @ replicate n 0)),
      X25519 = (\<lambda>scalar point.
         if length scalar = 32 \<and> length point = 32 then Some (map2 (XOR) scalar point) else None),
      ed25519_NewKeyFromSeed = (\<lambda>seed. (seed, seed @ seed)),
      ed25519_Sign = (\<lambda>priv msg. drop 32 priv @ take 32 (msg @ replicate 32 0)),
      ed25519_Verify = (\<lambda>pub msg sg. sg = pub @ take 32 (msg @ replicate 32 0)),
      argon2_IDKey = (\<lambda>password salt t m p keyLen. take keyLen (password @ salt @ replicate keyLen 0)),
      json_Marshal_HandshakeRequest = (\<lambda>req.
         bytes_of_string (DeviceName req @ DeviceFingerprint req @ Name (FileMetadata req)) @
         (case EphemeralPubKey req of None \<Rightarrow> [] | Some k \<Rightarrow> k) @
         (case Signature req of None \<Rightarrow> [] | Some sg \<Rightarrow> sg)),
      targz_Write = (\<lambda>entries. concat (map (\<lambda>e. case e of
           TarDir name \<Rightarrow> 0 # bytes_of_string name
         | TarReg name content \<Rightarrow> 1 # bytes_of_string name @ content) entries)),
      targz_Read = (\<lambda>archive. None)\<rparr>"

definition sample_identity :: DeviceIdentity where
  "sample_identity =
     \<lparr>PublicKey = replicate 32 5, PrivateKey = replicate 64 5,
      Fingerprint = ''05:05:05:05:05:05:05:05:05:05:05:05:05:05:05:05''\<rparr>"

definition sample_server :: SecureServer where
  "sample_server =
     \<lparr>port = 53317, downloadDir = ''downloads'', identity = sample_identity,
      deviceName = ''receiver'', onRequest = (\<lambda>req. True), onProgress = False,
      sessions = Map.empty, progress_calls = [], closed_sessions = []\<rparr>"

text \<open>A handshake for a file of \<open>sz\<close> bytes, answered under the session id \<open>sid\<close>.\<close>

definition sample_handshake :: "int \<Rightarrow> string \<Rightarrow> handshake_http" where
  "sample_handshake sz sid =
     \<lparr>hs_Method = ''POST'',
      hs_Body = Some \<lparr>DeviceName = ''sender'', DeviceFingerprint = ''aa:bb'',
                       EphemeralPubKey = Some (replicate 32 1),
                       FileMetadata = \<lparr>Name = ''f.bin'', Size = sz, Mime = ''application/octet-stream''\<rparr>,
                       Signature = Some (replicate 64 0)\<rparr>,
      hs_rand = Some (replicate 32 2), hs_uuid = sid, hs_create_ok = True\<rparr>"

text \<open>
  A chunk request for session \<open>sid\<close>: the plaintext \<open>[1, 2, 3]\<close> sealed under the
  session key of \<open>sample_handshake\<close> (32 bytes of value 3) with a nonce of twelve
  sevens, declared with index \<open>i\<close> and checksum \<open>declared\<close>.
\<close>

definition sample_checksum :: string where
  "sample_checksum = ''0102030000000000000000000000000000000000000000000000000000000000''"

definition sample_chunk :: "string \<Rightarrow> int \<Rightarrow> string \<Rightarrow> chunk_http" where
  "sample_chunk sid i declared =
     \<lparr>ch_Method = ''POST'',
      ch_Metadata = Some \<lparr>cm_Index = i, cm_Total = 1, cm_Size = 3, cm_Checksum = declared,
                           cm_SessionID = sid\<rparr>,
      ch_Body = Some (replicate 12 7 @ [1, 2, 3] @ replicate 16 3),
      ch_disk_ok = True\<rparr>"

text \<open>
  The server after it has accepted \<open>sample_handshake sz sid\<close>, the session it then holds,
  a chunk whose declared checksum is wrong, the server after chunk 0 of a two-chunk
  transfer has arrived, and a list of requests for a session of an empty file.
\<close>

definition sample_session :: "int \<Rightarrow> string \<Rightarrow> TransferSession" where
  "sample_session sz sid =
     \<lparr>sess_SessionID = sid, sess_SenderName = ''sender'', sess_Fingerprint = ''aa:bb'',
      sess_Metadata = \<lparr>Name = ''f.bin'', Size = sz, Mime = ''application/octet-stream''\<rparr>,
      sess_SessionKey = replicate 32 3,
      sess_TotalChunks = handleHandshake_totalChunks sz,
      sess_ReceivedChunks = fmempty,
      sess_FilePath = ''downloads/f.bin'',
      sess_File = \<lparr>file_name = ''downloads/f.bin'', file_writes = [], file_closed = False\<rparr>\<rparr>"

definition sample_server_after :: "int \<Rightarrow> string \<Rightarrow> SecureServer" where
  "sample_server_after sz sid = snd (handleHandshake sample_lib sample_server (sample_handshake sz sid))"

definition sample_bad_chunk :: "string \<Rightarrow> chunk_http" where
  "sample_bad_chunk sid = sample_chunk sid 0 ''00''"


definition sample_requests :: "http_request list" where
  "sample_requests =
     [ReqChunk (sample_chunk ''s0'' 0 sample_checksum), ReqStatus ''s0'',
      ReqChunk (sample_chunk ''s0'' 7 sample_checksum), ReqChunk (sample_bad_chunk ''s0'')]"

text \<open>Environments for \<^verbatim>\<open>LoadOrGenerateIdentity\<close>, and a file description.\<close>

definition sample_identity_env :: identity_env where
  "sample_identity_env =
     \<lparr>rand_seed = Some (replicate 32 5), mkdir_ok = True, write_pub_ok = True, write_key_ok = True\<rparr>"

definition failing_identity_env :: identity_env where
  "failing_identity_env =
     \<lparr>rand_seed = None, mkdir_ok = False, write_pub_ok = False, write_key_ok = False\<rparr>"

definition sample_metadata :: FileMetadata where
  "sample_metadata = \<lparr>Name = ''f.bin'', Size = 10, Mime = ''application/octet-stream''\<rparr>"

text \<open>
  Inputs for the container functions: a header with the right magic and version 2 and
  one with a wrong magic, each as a 64-byte container file without a body; an
  environment; a single file and a directory as source trees; and the outcome of
  creating a container from the single file.
\<close>

definition sample_header_v2 :: ContainerHeader where
  "sample_header_v2 =
     \<lparr>Magic = MagicBytes, hdr_Version = 2, Salt = replicate 32 9, Argon2Time = 3,
      Argon2Memory = 65536, Argon2Threads = 4, Reserved = replicate 15 0\<rparr>"

definition sample_container_v2 :: bytes where
  "sample_container_v2 = binary_Write_header sample_header_v2"

definition sample_container_bad_magic :: bytes where
  "sample_container_bad_magic =
     binary_Write_header (sample_header_v2\<lparr>Magic := [0x53, 0x46, 0x4D, 0x01], hdr_Version := 1\<rparr>)"

definition sample_container_env :: container_env where
  "sample_container_env =
     \<lparr>salt_rand = Some (replicate 32 9), nonce_rand = Some (replicate 12 7), create_ok = True,
      write_ok = True\<rparr>"

definition sample_file_tree :: fsnode where
  "sample_file_tree = RegFile (bytes_of_string ''Hello, SecureFileManager!'' @ [10])"

definition sample_dir_tree :: fsnode where
  "sample_dir_tree =
     Directory [(''a.txt'', RegFile (bytes_of_string ''A'')),
                (''sub'', Directory [(''b.txt'', RegFile (bytes_of_string ''BB''))])]"

definition sample_created :: "go_error option \<times> filesystem" where
  "sample_created =
     CreateContainer sample_lib sample_container_env (Some sample_file_tree) Map.empty
       ''hello.txt'' ''hello.sfm'' ''correct horse'' 3 65536 4"

section \<open>The fingerprint format as the specification words it\<close>

text \<open>
  Lower-case hex of the first 16 digest bytes, with a colon between every two
  neighbouring byte pairs.
\<close>

fun colon_join :: "string list \<Rightarrow> string" where
  "colon_join [] = []"
| "colon_join [x] = x"
| "colon_join (x # y # ys) = x @ '':'' @ colon_join (y # ys)"

definition fingerprint_format :: "bytes \<Rightarrow> string" where
  "fingerprint_format hash = colon_join (map hex_byte (take 16 hash))"

section \<open>Properties of the chunk arithmetic\<close>

lemma sdiv_nonneg_pos: "0 \<le> (s::int) \<Longrightarrow> 0 < c \<Longrightarrow> s sdiv c = s div c"
  by (cases "s = 0") (simp_all add: signed_divide_int_def)

lemma smod_nonneg_pos: "0 \<le> (s::int) \<Longrightarrow> 0 < c \<Longrightarrow> s smod c = s mod c"
  by (cases "s = 0") (simp_all add: signed_modulo_int_def)

lemma ceiling_divide_cases:
  "0 < (c::int) \<Longrightarrow>
     \<lceil>real_of_int s / real_of_int c\<rceil> = (if s mod c = 0 then s div c else s div c + 1)"
  using ceiling_divide_eq_div[of s c] zdiv_zminus1_eq_if[of c s] by auto

lemma handleHandshake_totalChunks_ceiling:
  "0 \<le> s \<Longrightarrow> handleHandshake_totalChunks s = \<lceil>real_of_int s / 4194304\<rceil>"
  using ceiling_divide_cases[of 4194304 s]
  by (simp add: handleHandshake_totalChunks_def Let_def sdiv_nonneg_pos smod_nonneg_pos)

text \<open>
  Claim C6. For every file size \<open>s \<ge> 0\<close> the chunk count computed by the client in
  \<^verbatim>\<open>SendFile\<close> and the one computed by the server in \<^verbatim>\<open>handleHandshake\<close> are equal,
  and both are the ceiling of \<open>s / 4194304\<close>.
\<close>

theorem total_chunks_agree:
  "0 \<le> s \<Longrightarrow>
     SendFile_totalChunks s = handleHandshake_totalChunks s \<and>
     SendFile_totalChunks s = \<lceil>real_of_int s / 4194304\<rceil> \<and>
     handleHandshake_totalChunks s = \<lceil>real_of_int s / 4194304\<rceil>"
proof -
  assume s: "0 \<le> s"
  have same: "SendFile_totalChunks s = handleHandshake_totalChunks s"
    by (simp add: SendFile_totalChunks_def handleHandshake_totalChunks_def Let_def)
  from handleHandshake_totalChunks_ceiling[OF s] same show ?thesis by simp
qed

text \<open>
  Witness for C6: a file of 6 MiB is two chunks on both sides.
\<close>

theorem total_chunks_agree_witness:
  "(0::int) \<le> 6291456 \<and> SendFile_totalChunks 6291456 = 2 \<and>
   handleHandshake_totalChunks 6291456 = 2 \<and> \<lceil>real_of_int 6291456 / 4194304\<rceil> = (2::int)"
proof -
  have h: "(0::int) \<le> 6291456" by simp
  have c: "\<lceil>real_of_int 6291456 / 4194304\<rceil> = (2::int)"
    by (simp add: ceiling_eq_iff)
  from total_chunks_agree[OF h] c show ?thesis by simp
qed

section \<open>Properties of the fingerprint\<close>

declare generateFingerprint_loop.simps [simp del]

lemma length_hex_byte: "length (hex_byte v) = 2"
  by (simp add: hex_byte_def)

lemma length_hex_EncodeToString: "length (hex_EncodeToString bs) = 2 * length bs"
  by (induction bs) (simp_all add: hex_EncodeToString_def length_hex_byte)

lemma hex_EncodeToString_Cons: "hex_EncodeToString (b # bs) = hex_byte b @ hex_EncodeToString bs"
  by (simp add: hex_EncodeToString_def)

lemma hex_pair_at:
  "k < length bs \<Longrightarrow> take 2 (drop (2 * k) (hex_EncodeToString bs)) = hex_byte (bs ! k)"
proof (induction bs arbitrary: k)
  case Nil
  then show ?case by simp
next
  case (Cons b bs)
  show ?case
  proof (cases k)
    case 0
    then show ?thesis by (simp add: hex_EncodeToString_Cons length_hex_byte)
  next
    case (Suc j)
    with Cons.prems have "j < length bs" by simp
    from Cons.IH[OF this] Suc show ?thesis
      by (simp add: hex_EncodeToString_Cons length_hex_byte)
  qed
qed

lemma colon_join_take_drop:
  "k < length bs \<Longrightarrow>
   colon_join (map hex_byte (take (Suc m) (drop k bs))) =
     hex_byte (bs ! k) @
       (if m = 0 \<or> length bs \<le> Suc k then [] else '':'' @ colon_join (map hex_byte (take m (drop (Suc k) bs))))"
proof -
  assume k: "k < length bs"
  then have d: "drop k bs = bs ! k # drop (Suc k) bs"
    by (simp add: Cons_nth_drop_Suc)
  show ?thesis
  proof (cases "take m (drop (Suc k) bs)")
    case Nil
    then show ?thesis using d by auto
  next
    case (Cons y ys)
    then have "m \<noteq> 0" "\<not> length bs \<le> Suc k" by (cases m; auto)+
    with Cons d show ?thesis by simp
  qed
qed

lemma generateFingerprint_loop_hex:
  assumes "16 \<le> length bs" and "k + n = 15"
  shows "generateFingerprint_loop (hex_EncodeToString bs) (2 * k) acc =
           Inr ((if k > 0 then acc @ '':'' else acc) @
                colon_join (map hex_byte (take (Suc n) (drop k bs))))"
  using assms
proof (induction n arbitrary: k acc)
  case 0
  then have k: "k = 15" by simp
  with "0.prems" have lt: "k < length bs" by simp
  show ?case
    using hex_pair_at[OF lt] lt k colon_join_take_drop[OF lt, of 0]
    by (subst generateFingerprint_loop.simps)
       (simp add: length_hex_EncodeToString Let_def)
next
  case (Suc n)
  then have k: "k < 15" and lt: "k < length bs" and lt2: "\<not> length bs \<le> Suc k" by simp_all
  from Suc.prems have kn: "Suc k + n = 15" by simp
  have step: "generateFingerprint_loop (hex_EncodeToString bs) (2 * k) acc =
      generateFingerprint_loop (hex_EncodeToString bs) (2 * Suc k)
        ((if k > 0 then acc @ '':'' else acc) @ hex_byte (bs ! k))"
    using hex_pair_at[OF lt] lt k
    by (subst generateFingerprint_loop.simps)
       (simp add: length_hex_EncodeToString Let_def)
  show ?case
    unfolding step Suc.IH[OF Suc.prems(1) kn]
    using colon_join_take_drop[OF lt, of "Suc n"] lt2
    by simp
qed

lemma generateFingerprint_format:
  "length (sha256_Sum256 L pubKey) = 32 \<Longrightarrow>
   generateFingerprint L pubKey = Inr (fingerprint_format (sha256_Sum256 L pubKey))"
  using generateFingerprint_loop_hex[of "sha256_Sum256 L pubKey" 0 15 "[]"]
  by (simp add: generateFingerprint_def fingerprint_format_def Let_def)

lemma length_colon_join:
  "xs \<noteq> [] \<Longrightarrow> \<forall>x\<in>set xs. length x = 2 \<Longrightarrow> length (colon_join xs) = 3 * length xs - 1"
  by (induction xs rule: colon_join.induct) auto

lemma length_fingerprint_format:
  "16 \<le> length h \<Longrightarrow> length (fingerprint_format h) = 47"
proof -
  assume h: "16 \<le> length h"
  then have "take 16 h \<noteq> []" by auto
  then have "length (colon_join (map hex_byte (take 16 h))) = 3 * length (map hex_byte (take 16 h)) - 1"
    by (intro length_colon_join) (auto simp: length_hex_byte)
  with h show ?thesis by (simp add: fingerprint_format_def)
qed

lemma length_hextable: "length hextable = 16"
  by (simp add: hextable_def)

lemma byte_high_nibble: "unat (drop_bit 4 (v::byte)) < 16"
proof -
  have "unat v < 256" using unsigned_less[of v] by simp
  then show ?thesis by (simp add: drop_bit_eq_div unat_div)
qed

lemma byte_low_nibble: "unat ((v::byte) AND 0x0f) < 16"
proof -
  have "unat (v AND 15) \<le> unat (15 :: byte)"
    by (rule word_and_le1 [THEN word_le_nat_alt [THEN iffD1]])
  then show ?thesis by simp
qed

lemma set_hex_byte: "set (hex_byte v) \<subseteq> set hextable"
proof -
  have "hextable ! unat (drop_bit 4 v) \<in> set hextable"
    by (rule nth_mem) (simp only: length_hextable byte_high_nibble)
  moreover have "hextable ! unat (v AND 0x0f) \<in> set hextable"
    by (rule nth_mem) (simp only: length_hextable byte_low_nibble)
  ultimately show ?thesis by (simp add: hex_byte_def)
qed

lemma set_colon_join:
  "\<forall>x\<in>set xs. set x \<subseteq> A \<Longrightarrow> set (colon_join xs) \<subseteq> insert CHR '':'' A"
  by (induction xs rule: colon_join.induct) auto

lemma set_fingerprint_format:
  "set (fingerprint_format h) \<subseteq> insert CHR '':'' (set hextable)"
proof -
  have "\<forall>x\<in>set (map hex_byte (take 16 h)). set x \<subseteq> set hextable"
    using set_hex_byte by simp
  from set_colon_join[OF this] show ?thesis
    by (simp only: fingerprint_format_def)
qed

lemma key_paths_differ: "filepath_Join dir ''device.pub'' \<noteq> filepath_Join dir ''device.key''"
  by (simp add: filepath_Join_def)

lemma GenerateIdentity_Fingerprint:
  "GenerateIdentity L env = Inr ident \<Longrightarrow>
     generateFingerprint L (PublicKey ident) = Inr (Fingerprint ident)"
  by (auto simp: GenerateIdentity_def Let_def split: sum.splits prod.splits)

lemma generate_and_save_success:
  assumes "fst (generate_and_save L env fs pubKeyPath privKeyPath) = Inr ident"
  shows "GenerateIdentity L env = Inr ident"
    and "snd (generate_and_save L env fs pubKeyPath privKeyPath) =
           fs(pubKeyPath \<mapsto> PublicKey ident, privKeyPath \<mapsto> PrivateKey ident)"
proof -
  from assms obtain i where g: "GenerateIdentity L env = Inr i"
    by (cases "GenerateIdentity L env") (simp_all add: generate_and_save_def)
  from assms g have ok: "mkdir_ok env" "write_pub_ok env" "write_key_ok env" and i: "i = ident"
    by (simp_all add: generate_and_save_def Let_def split: if_splits)
  from g i show "GenerateIdentity L env = Inr ident" by simp
  from g i ok show "snd (generate_and_save L env fs pubKeyPath privKeyPath) =
           fs(pubKeyPath \<mapsto> PublicKey ident, privKeyPath \<mapsto> PrivateKey ident)"
    by (simp add: generate_and_save_def Let_def)
qed

lemma LoadOrGenerateIdentity_success:
  assumes "fst (LoadOrGenerateIdentity L env fs dir) = Inr ident"
  shows "generateFingerprint L (PublicKey ident) = Inr (Fingerprint ident)"
    and "snd (LoadOrGenerateIdentity L env fs dir) (filepath_Join dir ''device.pub'') = Some (PublicKey ident)"
    and "snd (LoadOrGenerateIdentity L env fs dir) (filepath_Join dir ''device.key'') = Some (PrivateKey ident)"
proof -
  let ?pub = "filepath_Join dir ''device.pub''"
  let ?priv = "filepath_Join dir ''device.key''"
  let ?g = "generate_and_save L env fs ?pub ?priv"
  have gen: "generateFingerprint L (PublicKey ident) = Inr (Fingerprint ident) \<and>
             snd ?g ?pub = Some (PublicKey ident) \<and> snd ?g ?priv = Some (PrivateKey ident)"
    if "fst ?g = Inr ident"
    using generate_and_save_success[OF that] GenerateIdentity_Fingerprint[of L env ident]
      key_paths_differ[of dir]
    by simp
  have "generateFingerprint L (PublicKey ident) = Inr (Fingerprint ident) \<and>
        snd (LoadOrGenerateIdentity L env fs dir) ?pub = Some (PublicKey ident) \<and>
        snd (LoadOrGenerateIdentity L env fs dir) ?priv = Some (PrivateKey ident)"
  proof (cases "fs ?pub")
    case None
    with assms gen show ?thesis by (simp add: LoadOrGenerateIdentity_def Let_def)
  next
    case pub: (Some pubKeyData)
    show ?thesis
    proof (cases "fs ?priv")
      case None
      with pub assms gen show ?thesis by (simp add: LoadOrGenerateIdentity_def Let_def)
    next
      case priv: (Some privKeyData)
      show ?thesis
      proof (cases "generateFingerprint L pubKeyData")
        case (Inl e)
        with pub priv assms show ?thesis by (simp add: LoadOrGenerateIdentity_def Let_def)
      next
        case (Inr fp)
        with pub priv assms show ?thesis by (auto simp: LoadOrGenerateIdentity_def Let_def)
      qed
    qed
  qed
  then show "generateFingerprint L (PublicKey ident) = Inr (Fingerprint ident)"
    and "snd (LoadOrGenerateIdentity L env fs dir) ?pub = Some (PublicKey ident)"
    and "snd (LoadOrGenerateIdentity L env fs dir) ?priv = Some (PrivateKey ident)"
    by simp_all
qed

lemma LoadOrGenerateIdentity_load:
  "fs (filepath_Join dir ''device.pub'') = Some pub \<Longrightarrow>
   fs (filepath_Join dir ''device.key'') = Some priv \<Longrightarrow>
   generateFingerprint L pub = Inr fp \<Longrightarrow>
   LoadOrGenerateIdentity L env fs dir =
     (Inr \<lparr>PublicKey = pub, PrivateKey = priv, Fingerprint = fp\<rparr>, fs)"
  by (simp add: LoadOrGenerateIdentity_def Let_def)

lemma LoadOrGenerateIdentity_reload:
  assumes "fst (LoadOrGenerateIdentity L env fs dir) = Inr ident"
  shows "fst (LoadOrGenerateIdentity L env' (snd (LoadOrGenerateIdentity L env fs dir)) dir) = Inr ident"
  using LoadOrGenerateIdentity_load[OF LoadOrGenerateIdentity_success(2,3,1)[OF assms], of env']
  by simp

text \<open>
  Claim C7. The fingerprint is a function of the public key alone: the SHA-256 digest of
  the key, its first 16 bytes in lower-case hex with a colon between neighbouring
  bytes, 47 characters in all; and an identity that \<^verbatim>\<open>LoadOrGenerateIdentity\<close> returned
  is returned again, fingerprint included, by any later call on the files it left
  behind. The hypothesis states the type \<^verbatim>\<open>[32]byte\<close> of \<^verbatim>\<open>sha256.Sum256\<close>.
\<close>

theorem fingerprint_pure_and_stable:
  assumes "\<forall>data. length (sha256_Sum256 L data) = 32"
  shows "generateFingerprint L pubKey = Inr (fingerprint_format (sha256_Sum256 L pubKey)) \<and>
         length (fingerprint_format (sha256_Sum256 L pubKey)) = 47 \<and>
         set (fingerprint_format (sha256_Sum256 L pubKey)) \<subseteq> insert CHR '':'' (set hextable) \<and>
         (fst (LoadOrGenerateIdentity L env fs dir) = Inr ident \<longrightarrow>
            Fingerprint ident = fingerprint_format (sha256_Sum256 L (PublicKey ident)) \<and>
            fst (LoadOrGenerateIdentity L env' (snd (LoadOrGenerateIdentity L env fs dir)) dir) =
              Inr ident)"
proof -
  have len: "length (sha256_Sum256 L pk) = 32" for pk using assms by simp
  have fmt: "generateFingerprint L pk = Inr (fingerprint_format (sha256_Sum256 L pk))" for pk
    by (rule generateFingerprint_format[OF len])
  have l47: "length (fingerprint_format (sha256_Sum256 L pubKey)) = 47"
    by (rule length_fingerprint_format) (simp add: len)
  have reload: "fst (LoadOrGenerateIdentity L env fs dir) = Inr ident \<longrightarrow>
            Fingerprint ident = fingerprint_format (sha256_Sum256 L (PublicKey ident)) \<and>
            fst (LoadOrGenerateIdentity L env' (snd (LoadOrGenerateIdentity L env fs dir)) dir) =
              Inr ident"
  proof
    assume a: "fst (LoadOrGenerateIdentity L env fs dir) = Inr ident"
    from LoadOrGenerateIdentity_success(1)[OF a] fmt[of "PublicKey ident"]
    have "Fingerprint ident = fingerprint_format (sha256_Sum256 L (PublicKey ident))" by simp
    with LoadOrGenerateIdentity_reload[OF a]
    show "Fingerprint ident = fingerprint_format (sha256_Sum256 L (PublicKey ident)) \<and>
            fst (LoadOrGenerateIdentity L env' (snd (LoadOrGenerateIdentity L env fs dir)) dir) =
              Inr ident"
      by simp
  qed
  from fmt[of pubKey] l47 set_fingerprint_format[of "sha256_Sum256 L pubKey"] reload
  show ?thesis by (intro conjI)
qed

lemma sample_sha256_length: "\<forall>data. length (sha256_Sum256 sample_lib data) = 32"
  by (auto simp: sample_lib_def)

lemma sample_fingerprint:
  "fingerprint_format (sha256_Sum256 sample_lib (replicate 32 5)) =
     ''05:05:05:05:05:05:05:05:05:05:05:05:05:05:05:05''"
  by code_simp

lemma sample_generate:
  "fst (LoadOrGenerateIdentity sample_lib sample_identity_env Map.empty ''/home/u/.sfm/airdrop'') =
     Inr sample_identity"
proof -
  have r: "rand_Read (Some (replicate 32 5)) 32 = Inr (replicate 32 (5::byte))"
    by (simp add: rand_Read_def)
  have k: "ed25519_NewKeyFromSeed sample_lib (replicate 32 5) = (replicate 32 5, replicate 64 5)"
    by (simp add: sample_lib_def replicate_add[symmetric])
  have f: "generateFingerprint sample_lib (replicate 32 5) =
      Inr ''05:05:05:05:05:05:05:05:05:05:05:05:05:05:05:05''"
    using generateFingerprint_format[of sample_lib "replicate 32 5"] sample_sha256_length
      sample_fingerprint by simp
  have g: "GenerateIdentity sample_lib sample_identity_env = Inr sample_identity"
    by (simp add: GenerateIdentity_def sample_identity_env_def r k f sample_identity_def)
  have ok: "mkdir_ok sample_identity_env" "write_pub_ok sample_identity_env"
      "write_key_ok sample_identity_env"
    by (simp_all add: sample_identity_env_def)
  show ?thesis
    by (simp add: LoadOrGenerateIdentity_def generate_and_save_def Let_def g ok)
qed

text \<open>
  Witness for C7: a key of 32 fives under \<open>sample_lib\<close>, generated into an empty file
  system and then loaded again by a call whose environment could not generate anything.
\<close>

theorem fingerprint_pure_and_stable_witness:
  "(\<forall>data. length (sha256_Sum256 sample_lib data) = 32) \<and>
   generateFingerprint sample_lib (replicate 32 5) =
     Inr ''05:05:05:05:05:05:05:05:05:05:05:05:05:05:05:05'' \<and>
   length ''05:05:05:05:05:05:05:05:05:05:05:05:05:05:05:05'' = 47 \<and>
   fst (LoadOrGenerateIdentity sample_lib sample_identity_env Map.empty ''/home/u/.sfm/airdrop'') =
     Inr sample_identity \<and>
   fst (LoadOrGenerateIdentity sample_lib failing_identity_env
          (snd (LoadOrGenerateIdentity sample_lib sample_identity_env Map.empty ''/home/u/.sfm/airdrop''))
          ''/home/u/.sfm/airdrop'') = Inr sample_identity"
  using fingerprint_pure_and_stable[OF sample_sha256_length, of "replicate 32 5"
      sample_identity_env Map.empty "''/home/u/.sfm/airdrop''" sample_identity failing_identity_env]
    sample_sha256_length sample_generate sample_fingerprint
  by simp

section \<open>Properties of signed handshake requests\<close>

text \<open>
  Claim C8. For an identity that is an Ed25519 key pair (a private key of 64 bytes, a
  public key of 32 bytes, and signatures of the one verify under the other), the request
  built by \<^verbatim>\<open>CreateHandshakeRequest\<close> carries the signature of its own serialization with
  the signature field \<^verbatim>\<open>nil\<close>, and \<^verbatim>\<open>VerifyHandshakeRequest\<close> accepts it under the
  identity's public key, leaving the request as it was.
\<close>

theorem handshake_sign_verify_roundtrip:
  assumes "length (PrivateKey ident) = 64" and "length (PublicKey ident) = 32"
    and "\<forall>msg. ed25519_Verify L (PublicKey ident) msg (ed25519_Sign L (PrivateKey ident) msg)"
  shows "\<exists>req. CreateHandshakeRequest L ident dname ephKey fmeta = Inr req \<and>
           DeviceName req = dname \<and> DeviceFingerprint req = Fingerprint ident \<and>
           EphemeralPubKey req = ephKey \<and> FileMetadata req = fmeta \<and>
           Signature req =
             Some (ed25519_Sign L (PrivateKey ident)
                     (json_Marshal_HandshakeRequest L (req\<lparr>Signature := None\<rparr>))) \<and>
           VerifyHandshakeRequest L req (PublicKey ident) = (Inr True, req)"
proof -
  define unsigned where "unsigned =
    \<lparr>DeviceName = dname, DeviceFingerprint = Fingerprint ident,
     EphemeralPubKey = ephKey, FileMetadata = fmeta, Signature = None\<rparr>"
  define sg where "sg = ed25519_Sign L (PrivateKey ident) (json_Marshal_HandshakeRequest L unsigned)"
  define req where "req = unsigned\<lparr>Signature := Some sg\<rparr>"
  have created: "CreateHandshakeRequest L ident dname ephKey fmeta = Inr req"
    using assms(1)
    by (simp add: CreateHandshakeRequest_def Sign_def Let_def req_def sg_def unsigned_def)
  have cleared: "req\<lparr>Signature := None\<rparr> = unsigned"
    by (simp add: req_def unsigned_def)
  have restored: "unsigned\<lparr>Signature := Signature req\<rparr> = req"
    by (simp add: req_def)
  have verdict: "VerifySignature L (PublicKey ident) (json_Marshal_HandshakeRequest L unsigned)
      (Signature req) = Inr True"
    using assms(2,3) by (simp add: VerifySignature_def req_def sg_def)
  have verified: "VerifyHandshakeRequest L req (PublicKey ident) = (Inr True, req)"
    by (simp add: VerifyHandshakeRequest_def Let_def cleared restored verdict)
  have fields: "DeviceName req = dname" "DeviceFingerprint req = Fingerprint ident"
      "EphemeralPubKey req = ephKey" "FileMetadata req = fmeta"
    by (simp_all add: req_def unsigned_def)
  have signed: "Signature req =
      Some (ed25519_Sign L (PrivateKey ident) (json_Marshal_HandshakeRequest L (req\<lparr>Signature := None\<rparr>)))"
    unfolding cleared by (simp add: req_def sg_def)
  from created fields signed verified show ?thesis by blast
qed

lemma sample_identity_keypair:
  "length (PrivateKey sample_identity) = 64" "length (PublicKey sample_identity) = 32"
  "\<forall>msg. ed25519_Verify sample_lib (PublicKey sample_identity) msg
            (ed25519_Sign sample_lib (PrivateKey sample_identity) msg)"
  by (simp_all add: sample_identity_def sample_lib_def)

text \<open>
  Witness for C8: \<open>sample_identity\<close> signs a request for \<open>sample_metadata\<close>.
\<close>

theorem handshake_sign_verify_roundtrip_witness:
  "length (PrivateKey sample_identity) = 64 \<and> length (PublicKey sample_identity) = 32 \<and>
   (\<forall>msg. ed25519_Verify sample_lib (PublicKey sample_identity) msg
            (ed25519_Sign sample_lib (PrivateKey sample_identity) msg)) \<and>
   (\<exists>req. CreateHandshakeRequest sample_lib sample_identity ''sender'' (Some (replicate 32 1))
             sample_metadata = Inr req \<and>
      Signature req =
        Some (ed25519_Sign sample_lib (PrivateKey sample_identity)
                (json_Marshal_HandshakeRequest sample_lib (req\<lparr>Signature := None\<rparr>))) \<and>
      VerifyHandshakeRequest sample_lib req (PublicKey sample_identity) = (Inr True, req))"
  using handshake_sign_verify_roundtrip[OF sample_identity_keypair, of "''sender''"
      "Some (replicate 32 1)" sample_metadata] sample_identity_keypair
  by blast

section \<open>Properties of the chunk handler\<close>

lemma handleChunk_cases:
  obtains
    (wrong_method) "ch_Method r \<noteq> ''POST''" "handleChunk L s r = (HttpError 405 ''Method not allowed'', s)"
  | (metadata) "ch_Method r = ''POST''" "ch_Metadata r = None"
      "handleChunk L s r = (HttpError 400 ''Invalid chunk metadata'', s)"
  | (session) md where "ch_Method r = ''POST''" "ch_Metadata r = Some md" "sessions s (cm_SessionID md) = None"
      "handleChunk L s r = (HttpError 400 ''Invalid session'', s)"
  | (body) md sess where "ch_Method r = ''POST''" "ch_Metadata r = Some md"
      "sessions s (cm_SessionID md) = Some sess" "ch_Body r = None"
      "handleChunk L s r = (HttpError 500 ''Failed to read chunk'', s)"
  | (decrypt) md sess enc e where "ch_Method r = ''POST''" "ch_Metadata r = Some md"
      "sessions s (cm_SessionID md) = Some sess" "ch_Body r = Some enc"
      "DecryptChunk L enc (sess_SessionKey sess) = Inl e"
      "handleChunk L s r = (HttpError 500 ''Failed to decrypt chunk'', s)"
  | (checksum) md sess enc pt where "ch_Method r = ''POST''" "ch_Metadata r = Some md"
      "sessions s (cm_SessionID md) = Some sess" "ch_Body r = Some enc"
      "DecryptChunk L enc (sess_SessionKey sess) = Inr pt"
      "CalculateChunkChecksum L pt \<noteq> cm_Checksum md"
      "handleChunk L s r =
         (RespAck \<lparr>ack_Index = cm_Index md, ack_SessionID = cm_SessionID md,
                   ack_Success = False, ack_Error = ''Checksum mismatch''\<rparr>, s)"
  | (write_failed) md sess enc pt e where "ch_Method r = ''POST''" "ch_Metadata r = Some md"
      "sessions s (cm_SessionID md) = Some sess" "ch_Body r = Some enc"
      "DecryptChunk L enc (sess_SessionKey sess) = Inr pt"
      "CalculateChunkChecksum L pt = cm_Checksum md"
      "File_WriteAt (ch_disk_ok r) (sess_File sess) pt (int64 (cm_Index md * 4194304)) = Inl e"
      "handleChunk L s r =
         (RespAck \<lparr>ack_Index = cm_Index md, ack_SessionID = cm_SessionID md,
                   ack_Success = False, ack_Error = ''Failed to write chunk''\<rparr>, s)"
  | (stored) md sess enc pt file1 where "ch_Method r = ''POST''" "ch_Metadata r = Some md"
      "sessions s (cm_SessionID md) = Some sess" "ch_Body r = Some enc"
      "DecryptChunk L enc (sess_SessionKey sess) = Inr pt"
      "CalculateChunkChecksum L pt = cm_Checksum md"
      "File_WriteAt (ch_disk_ok r) (sess_File sess) pt (int64 (cm_Index md * 4194304)) = Inr file1"
      "handleChunk L s r =
         (let session1 = sess\<lparr>sess_File := file1,
                sess_ReceivedChunks := fmupd (cm_Index md) True (sess_ReceivedChunks sess)\<rparr>;
              s1 = s\<lparr>sessions := (sessions s)(cm_SessionID md \<mapsto> session1),
                     progress_calls :=
                       (if onProgress s
                        then progress_calls s @
                               [(Name (sess_Metadata sess),
                                 int (fcard (fmdom (sess_ReceivedChunks session1))),
                                 sess_TotalChunks sess)]
                        else progress_calls s)\<rparr>
          in (RespAck \<lparr>ack_Index = cm_Index md, ack_SessionID = cm_SessionID md,
                        ack_Success = True, ack_Error = []\<rparr>,
              if transfer_complete session1
              then s1\<lparr>sessions := (sessions s1)(cm_SessionID md := None),
                      closed_sessions := closed_sessions s1 @
                         [session1\<lparr>sess_File := File_Close file1\<rparr>]\<rparr>
              else s1))"
proof (cases "ch_Method r = ''POST''")
  case False
  then show ?thesis using wrong_method by (simp add: handleChunk_def)
next
  case post: True
  show ?thesis
  proof (cases "ch_Metadata r")
    case None
    with post show ?thesis using metadata by (simp add: handleChunk_def)
  next
    case md: (Some md)
    show ?thesis
    proof (cases "sessions s (cm_SessionID md)")
      case None
      with post md show ?thesis using session by (simp add: handleChunk_def)
    next
      case sess: (Some sess)
      show ?thesis
      proof (cases "ch_Body r")
        case None
        with post md sess show ?thesis using body by (simp add: handleChunk_def)
      next
        case enc: (Some enc)
        show ?thesis
        proof (cases "DecryptChunk L enc (sess_SessionKey sess)")
          case (Inl e)
          with post md sess enc show ?thesis using decrypt by (simp add: handleChunk_def)
        next
          case pt: (Inr pt)
          show ?thesis
          proof (cases "CalculateChunkChecksum L pt = cm_Checksum md")
            case False
            with post md sess enc pt show ?thesis using checksum by (simp add: handleChunk_def)
          next
            case sum: True
            show ?thesis
            proof (cases "File_WriteAt (ch_disk_ok r) (sess_File sess) pt (int64 (cm_Index md * 4194304))")
              case (Inl e)
              with post md sess enc pt sum show ?thesis
                using write_failed by (simp add: handleChunk_def)
            next
              case (Inr file1)
              with post md sess enc pt sum show ?thesis
                using stored[of md sess enc pt file1]
                by (simp add: handleChunk_def Let_def transfer_complete_def)
            qed
          qed
        qed
      qed
    qed
  qed
qed

lemma int64_in_range: "- (2 ^ 63) \<le> x \<Longrightarrow> x < 2 ^ 63 \<Longrightarrow> int64 x = x"
  by (simp add: int64_def signed_take_bit_int_eq_self)

lemma int64_chunk_offset:
  assumes "- (2 ^ 41) \<le> i" and "i < 2 ^ 41"
  shows "int64 (i * 4194304) = i * 4194304"
proof -
  have "- (2 ^ 63) \<le> i * 4194304" "i * 4194304 < 2 ^ 63" using assms by simp_all
  then show ?thesis by (rule int64_in_range)
qed

lemma File_WriteAt_Inr:
  "File_WriteAt ok f b off = Inr f1 \<Longrightarrow>
     0 \<le> off \<and> file_closed f1 = file_closed f \<and> file_name f1 = file_name f \<and>
     file_writes f1 = file_writes f @ (if b = [] then [] else [(off, b)])"
  by (auto simp: File_WriteAt_def split: if_splits)

lemma File_WriteAt_ok:
  "0 \<le> off \<Longrightarrow> \<not> file_closed f \<Longrightarrow> ok \<Longrightarrow> \<exists>f1. File_WriteAt ok f b off = Inr f1"
  by (simp add: File_WriteAt_def)

lemma handleChunk_changed:
  assumes "snd (handleChunk L s r) \<noteq> s"
  obtains md sess enc pt file1 where "ch_Method r = ''POST''" "ch_Metadata r = Some md"
      "sessions s (cm_SessionID md) = Some sess" "ch_Body r = Some enc"
      "DecryptChunk L enc (sess_SessionKey sess) = Inr pt"
      "CalculateChunkChecksum L pt = cm_Checksum md"
      "File_WriteAt (ch_disk_ok r) (sess_File sess) pt (int64 (cm_Index md * 4194304)) = Inr file1"
  by (rule handleChunk_cases[where L=L and s=s and r=r]) (use assms that in \<open>auto simp: Let_def\<close>)

lemma handleChunk_success:
  assumes "is_success_ack (fst (handleChunk L s r))"
  obtains md sess enc pt file1 where "ch_Method r = ''POST''" "ch_Metadata r = Some md"
      "sessions s (cm_SessionID md) = Some sess" "ch_Body r = Some enc"
      "DecryptChunk L enc (sess_SessionKey sess) = Inr pt"
      "CalculateChunkChecksum L pt = cm_Checksum md"
      "File_WriteAt (ch_disk_ok r) (sess_File sess) pt (int64 (cm_Index md * 4194304)) = Inr file1"
  by (rule handleChunk_cases[where L=L and s=s and r=r]) (use assms that in \<open>auto simp: Let_def\<close>)

lemma handleChunk_not_success:
  assumes "\<not> is_success_ack (fst (handleChunk L s r))"
  shows "snd (handleChunk L s r) = s"
  by (rule handleChunk_cases[where L=L and s=s and r=r]) (use assms in \<open>auto simp: Let_def\<close>)

lemma handleChunk_checksum_mismatch:
  assumes "ch_Method r = ''POST''" "ch_Metadata r = Some md"
      "sessions s (cm_SessionID md) = Some sess" "ch_Body r = Some enc"
      "DecryptChunk L enc (sess_SessionKey sess) = Inr pt"
      "CalculateChunkChecksum L pt \<noteq> cm_Checksum md"
  shows "handleChunk L s r =
        (RespAck \<lparr>ack_Index = cm_Index md, ack_SessionID = cm_SessionID md,
                  ack_Success = False, ack_Error = ''Checksum mismatch''\<rparr>, s)"
  using assms by (simp add: handleChunk_def)

text \<open>
  Claim C5. A chunk request for a known session whose decrypted body does not hash to
  the declared checksum is answered with the ACK \<^verbatim>\<open>{success:false, error:"Checksum mismatch"}\<close>
  and leaves the server, the session's file included, as it was. Conversely, whenever
  a chunk request changes the server at all, its decrypted body hashed to the declared
  checksum and the write of that body at the chunk's offset into the session's file
  succeeded, a write that appends the body, when it is not empty, to the write log.
\<close>

theorem checksum_mismatch_not_written:
  "(ch_Method r = ''POST'' \<and> ch_Metadata r = Some md \<and>
    sessions s (cm_SessionID md) = Some sess \<and> ch_Body r = Some enc \<and>
    DecryptChunk L enc (sess_SessionKey sess) = Inr pt \<and>
    CalculateChunkChecksum L pt \<noteq> cm_Checksum md \<longrightarrow>
      handleChunk L s r =
        (RespAck \<lparr>ack_Index = cm_Index md, ack_SessionID = cm_SessionID md,
                  ack_Success = False, ack_Error = ''Checksum mismatch''\<rparr>, s)) \<and>
   (snd (handleChunk L s r) \<noteq> s \<longrightarrow>
      (\<exists>md' sess' enc' pt' file1.
          ch_Metadata r = Some md' \<and> sessions s (cm_SessionID md') = Some sess' \<and>
          ch_Body r = Some enc' \<and> DecryptChunk L enc' (sess_SessionKey sess') = Inr pt' \<and>
          CalculateChunkChecksum L pt' = cm_Checksum md' \<and>
          File_WriteAt (ch_disk_ok r) (sess_File sess') pt' (int64 (cm_Index md' * 4194304)) = Inr file1 \<and>
          file_writes file1 =
            file_writes (sess_File sess') @
              (if pt' = [] then [] else [(int64 (cm_Index md' * 4194304), pt')])))"
proof (intro conjI impI)
  assume a: "ch_Method r = ''POST'' \<and> ch_Metadata r = Some md \<and>
    sessions s (cm_SessionID md) = Some sess \<and> ch_Body r = Some enc \<and>
    DecryptChunk L enc (sess_SessionKey sess) = Inr pt \<and>
    CalculateChunkChecksum L pt \<noteq> cm_Checksum md"
  then show "handleChunk L s r =
        (RespAck \<lparr>ack_Index = cm_Index md, ack_SessionID = cm_SessionID md,
                  ack_Success = False, ack_Error = ''Checksum mismatch''\<rparr>, s)"
    by (simp add: handleChunk_def)
next
  assume "snd (handleChunk L s r) \<noteq> s"
  then obtain md' sess' enc' pt' file1 where h:
      "ch_Metadata r = Some md'"
      "sessions s (cm_SessionID md') = Some sess'" "ch_Body r = Some enc'"
      "DecryptChunk L enc' (sess_SessionKey sess') = Inr pt'"
      "CalculateChunkChecksum L pt' = cm_Checksum md'"
      "File_WriteAt (ch_disk_ok r) (sess_File sess') pt' (int64 (cm_Index md' * 4194304)) = Inr file1"
    by (rule handleChunk_changed)
  from File_WriteAt_Inr[OF h(6)] h
  show "\<exists>md' sess' enc' pt' file1.
          ch_Metadata r = Some md' \<and> sessions s (cm_SessionID md') = Some sess' \<and>
          ch_Body r = Some enc' \<and> DecryptChunk L enc' (sess_SessionKey sess') = Inr pt' \<and>
          CalculateChunkChecksum L pt' = cm_Checksum md' \<and>
          File_WriteAt (ch_disk_ok r) (sess_File sess') pt' (int64 (cm_Index md' * 4194304)) = Inr file1 \<and>
          file_writes file1 =
            file_writes (sess_File sess') @
              (if pt' = [] then [] else [(int64 (cm_Index md' * 4194304), pt')])"
    by blast
qed

lemma handleChunk_stored_state:
  assumes "ch_Method r = ''POST''" "ch_Metadata r = Some md"
      "sessions s (cm_SessionID md) = Some sess" "ch_Body r = Some enc"
      "DecryptChunk L enc (sess_SessionKey sess) = Inr pt"
      "CalculateChunkChecksum L pt = cm_Checksum md"
      "File_WriteAt (ch_disk_ok r) (sess_File sess) pt (int64 (cm_Index md * 4194304)) = Inr file1"
  defines "session1 \<equiv> sess\<lparr>sess_File := file1,
                sess_ReceivedChunks := fmupd (cm_Index md) True (sess_ReceivedChunks sess)\<rparr>"
  shows "fst (handleChunk L s r) =
           RespAck \<lparr>ack_Index = cm_Index md, ack_SessionID = cm_SessionID md,
                    ack_Success = True, ack_Error = []\<rparr>"
    and "sessions (snd (handleChunk L s r)) =
           (if transfer_complete session1 then (sessions s)(cm_SessionID md := None)
            else (sessions s)(cm_SessionID md \<mapsto> session1))"
    and "closed_sessions (snd (handleChunk L s r)) =
           (if transfer_complete session1
            then closed_sessions s @ [session1\<lparr>sess_File := File_Close file1\<rparr>]
            else closed_sessions s)"
  using assms by (simp_all add: handleChunk_def Let_def transfer_complete_def)

text \<open>
  Claim C4, as amended. The handler never compares the chunk index with
  \<^verbatim>\<open>TotalChunks\<close>. A request answered with a success ACK belongs to a known session and
  has a non-negative \<^verbatim>\<open>int64\<close> write offset \<open>index * 4 MiB\<close> (so \<open>index \<ge> 0\<close> whenever
  \<open>|index| < 2^41\<close>); a request not answered with a success ACK changes nothing; and
  every request that decrypts, matches its checksum and can be written, with any index
  from 0 up to \<open>2^41\<close>, is ACKed, written at \<open>index * 4 MiB\<close> and marked received,
  whatever \<^verbatim>\<open>TotalChunks\<close> is.
\<close>

theorem chunk_ack_without_range_check:
  "(is_success_ack (fst (handleChunk L s r)) \<longrightarrow>
      (\<exists>md sess. ch_Metadata r = Some md \<and> sessions s (cm_SessionID md) = Some sess \<and>
         0 \<le> int64 (cm_Index md * 4194304) \<and>
         (- (2 ^ 41) \<le> cm_Index md \<and> cm_Index md < 2 ^ 41 \<longrightarrow> 0 \<le> cm_Index md))) \<and>
   (\<not> is_success_ack (fst (handleChunk L s r)) \<longrightarrow> snd (handleChunk L s r) = s) \<and>
   (ch_Method r = ''POST'' \<and> ch_Metadata r = Some md \<and>
    sessions s (cm_SessionID md) = Some sess \<and> ch_Body r = Some enc \<and>
    DecryptChunk L enc (sess_SessionKey sess) = Inr pt \<and>
    CalculateChunkChecksum L pt = cm_Checksum md \<and>
    0 \<le> cm_Index md \<and> cm_Index md < 2 ^ 41 \<and>
    \<not> file_closed (sess_File sess) \<and> ch_disk_ok r \<longrightarrow>
      is_success_ack (fst (handleChunk L s r)) \<and>
      (\<exists>sess1. (sessions (snd (handleChunk L s r)) (cm_SessionID md) = Some sess1 \<or>
                 sess1 \<in> set (closed_sessions (snd (handleChunk L s r)))) \<and>
               cm_Index md |\<in>| fmdom (sess_ReceivedChunks sess1) \<and>
               (pt \<noteq> [] \<longrightarrow> (cm_Index md * 4194304, pt) \<in> set (file_writes (sess_File sess1)))))"
proof (intro conjI impI)
  assume "is_success_ack (fst (handleChunk L s r))"
  then obtain md sess enc pt file1 where h: "ch_Metadata r = Some md"
      "sessions s (cm_SessionID md) = Some sess"
      "File_WriteAt (ch_disk_ok r) (sess_File sess) pt (int64 (cm_Index md * 4194304)) = Inr file1"
    by (rule handleChunk_success)
  from File_WriteAt_Inr[OF h(3)] have off: "0 \<le> int64 (cm_Index md * 4194304)" by simp
  have "- (2 ^ 41) \<le> cm_Index md \<and> cm_Index md < 2 ^ 41 \<longrightarrow> 0 \<le> cm_Index md"
  proof
    assume "- (2 ^ 41) \<le> cm_Index md \<and> cm_Index md < 2 ^ 41"
    then have "int64 (cm_Index md * 4194304) = cm_Index md * 4194304"
      by (simp add: int64_chunk_offset)
    with off show "0 \<le> cm_Index md" by simp
  qed
  with h off show "\<exists>md sess. ch_Metadata r = Some md \<and> sessions s (cm_SessionID md) = Some sess \<and>
         0 \<le> int64 (cm_Index md * 4194304) \<and>
         (- (2 ^ 41) \<le> cm_Index md \<and> cm_Index md < 2 ^ 41 \<longrightarrow> 0 \<le> cm_Index md)"
    by blast
next
  assume "\<not> is_success_ack (fst (handleChunk L s r))"
  then show "snd (handleChunk L s r) = s" by (rule handleChunk_not_success)
next
  assume a: "ch_Method r = ''POST'' \<and> ch_Metadata r = Some md \<and>
    sessions s (cm_SessionID md) = Some sess \<and> ch_Body r = Some enc \<and>
    DecryptChunk L enc (sess_SessionKey sess) = Inr pt \<and>
    CalculateChunkChecksum L pt = cm_Checksum md \<and>
    0 \<le> cm_Index md \<and> cm_Index md < 2 ^ 41 \<and>
    \<not> file_closed (sess_File sess) \<and> ch_disk_ok r"
  then have off: "int64 (cm_Index md * 4194304) = cm_Index md * 4194304"
    by (simp add: int64_chunk_offset)
  from a obtain file1 where
    w: "File_WriteAt (ch_disk_ok r) (sess_File sess) pt (int64 (cm_Index md * 4194304)) = Inr file1"
    using File_WriteAt_ok[of "int64 (cm_Index md * 4194304)" "sess_File sess" "ch_disk_ok r" pt] off
    by auto
  define session1 where "session1 = sess\<lparr>sess_File := file1,
                sess_ReceivedChunks := fmupd (cm_Index md) True (sess_ReceivedChunks sess)\<rparr>"
  note st = handleChunk_stored_state[of r md s sess enc L pt file1, folded session1_def]
  from a w st(1) show "is_success_ack (fst (handleChunk L s r))" by simp
  have marked: "cm_Index md |\<in>| fmdom (sess_ReceivedChunks session1)"
    by (simp add: session1_def)
  have written: "pt \<noteq> [] \<longrightarrow> (cm_Index md * 4194304, pt) \<in> set (file_writes (sess_File session1))"
    using File_WriteAt_Inr[OF w] off by (simp add: session1_def)
  show "\<exists>sess1. (sessions (snd (handleChunk L s r)) (cm_SessionID md) = Some sess1 \<or>
                 sess1 \<in> set (closed_sessions (snd (handleChunk L s r)))) \<and>
               cm_Index md |\<in>| fmdom (sess_ReceivedChunks sess1) \<and>
               (pt \<noteq> [] \<longrightarrow> (cm_Index md * 4194304, pt) \<in> set (file_writes (sess_File sess1)))"
  proof (cases "transfer_complete session1")
    case True
    with a w st(3) have "session1\<lparr>sess_File := File_Close file1\<rparr> \<in> set (closed_sessions (snd (handleChunk L s r)))"
      by simp
    moreover have "cm_Index md |\<in>| fmdom (sess_ReceivedChunks (session1\<lparr>sess_File := File_Close file1\<rparr>))"
      using marked by simp
    moreover have "pt \<noteq> [] \<longrightarrow> (cm_Index md * 4194304, pt) \<in>
        set (file_writes (sess_File (session1\<lparr>sess_File := File_Close file1\<rparr>)))"
      using written by (simp add: File_Close_def session1_def)
    ultimately show ?thesis by blast
  next
    case False
    with a w st(2) have "sessions (snd (handleChunk L s r)) (cm_SessionID md) = Some session1"
      by simp
    with marked written show ?thesis by blast
  qed
qed

section \<open>Invariants of the server\<close>

lemma handleHandshake_cases:
  obtains
    (unchanged) "snd (handleHandshake L s r) = s" "\<forall>resp. fst (handleHandshake L s r) = RespHandshake resp \<longrightarrow> \<not> Accepted resp"
  | (accepted) req privKey pubKey sessionKey where
      "hs_Method r = ''POST''" "hs_Body r = Some req" "onRequest s req"
      "GenerateEphemeralKey L (hs_rand r) = Inr (privKey, pubKey)"
      "DeriveSharedSecret L privKey (case EphemeralPubKey req of None \<Rightarrow> [] | Some k \<Rightarrow> k) = Inr sessionKey"
      "hs_create_ok r"
      "handleHandshake L s r =
         (RespHandshake \<lparr>Accepted = True, resp_EphemeralPubKey = Some pubKey,
                         resp_SessionID = hs_uuid r, Message = ''Transfer accepted''\<rparr>,
          s\<lparr>sessions := (sessions s)(hs_uuid r \<mapsto>
              \<lparr>sess_SessionID = hs_uuid r,
               sess_SenderName = DeviceName req,
               sess_Fingerprint = DeviceFingerprint req,
               sess_Metadata = FileMetadata req,
               sess_SessionKey = sessionKey,
               sess_TotalChunks = handleHandshake_totalChunks (Size (FileMetadata req)),
               sess_ReceivedChunks = fmempty,
               sess_FilePath = filepath_Join (downloadDir s) (Name (FileMetadata req)),
               sess_File = \<lparr>file_name = filepath_Join (downloadDir s) (Name (FileMetadata req)),
                            file_writes = [], file_closed = False\<rparr>\<rparr>)\<rparr>)"
proof (cases "hs_Method r = ''POST''")
  case False
  then show ?thesis using unchanged by (simp add: handleHandshake_def)
next
  case post: True
  show ?thesis
  proof (cases "hs_Body r")
    case None
    with post show ?thesis using unchanged by (simp add: handleHandshake_def)
  next
    case req: (Some req)
    show ?thesis
    proof (cases "onRequest s req")
      case False
      with post req show ?thesis using unchanged by (simp add: handleHandshake_def)
    next
      case acc: True
      show ?thesis
      proof (cases "GenerateEphemeralKey L (hs_rand r)")
        case (Inl e)
        with post req acc show ?thesis using unchanged by (simp add: handleHandshake_def)
      next
        case (Inr kp)
        then obtain privKey pubKey where kp: "GenerateEphemeralKey L (hs_rand r) = Inr (privKey, pubKey)"
          by (cases kp) auto
        show ?thesis
        proof (cases "DeriveSharedSecret L privKey (case EphemeralPubKey req of None \<Rightarrow> [] | Some k \<Rightarrow> k)")
          case (Inl e)
          with post req acc kp show ?thesis using unchanged by (simp add: handleHandshake_def)
        next
          case sk: (Inr sessionKey)
          show ?thesis
          proof (cases "hs_create_ok r")
            case False
            with post req acc kp sk show ?thesis using unchanged
              by (simp add: handleHandshake_def os_Create_def Let_def)
          next
            case True
            with post req acc kp sk show ?thesis using accepted[of req privKey pubKey sessionKey]
              by (simp add: handleHandshake_def os_Create_def Let_def)
          qed
        qed
      qed
    qed
  qed
qed





lemma handleStatus_state: "snd (handleStatus s sid) = s"
  by (simp add: handleStatus_def Let_def split: option.splits)





lemma fcard_fmdom_fmupd_pos: "fcard (fmdom (fmupd k v m)) \<noteq> 0"
  by (simp add: fcard_0_eq)

lemma zero_chunk_session_handleChunk:
  assumes z: "zero_chunk_session s sid"
  shows "zero_chunk_session (snd (handleChunk L s r)) sid"
proof (cases "snd (handleChunk L s r) = s")
  case True
  with z show ?thesis by simp
next
  case False
  then obtain md sess enc pt file1 where h: "ch_Method r = ''POST''" "ch_Metadata r = Some md"
      "sessions s (cm_SessionID md) = Some sess" "ch_Body r = Some enc"
      "DecryptChunk L enc (sess_SessionKey sess) = Inr pt"
      "CalculateChunkChecksum L pt = cm_Checksum md"
      "File_WriteAt (ch_disk_ok r) (sess_File sess) pt (int64 (cm_Index md * 4194304)) = Inr file1"
    by (rule handleChunk_changed)
  define session1 where "session1 = sess\<lparr>sess_File := file1,
                sess_ReceivedChunks := fmupd (cm_Index md) True (sess_ReceivedChunks sess)\<rparr>"
  note st = handleChunk_stored_state[OF h, folded session1_def]
  show ?thesis
  proof (cases "cm_SessionID md = sid")
    case False
    with st(2) z show ?thesis by (auto simp: zero_chunk_session_def)
  next
    case True
    with z h(3) have tc: "sess_TotalChunks sess = 0" and op: "\<not> file_closed (sess_File sess)"
      by (auto simp: zero_chunk_session_def)
    have nc: "\<not> transfer_complete session1"
      using tc fcard_fmdom_fmupd_pos[of "cm_Index md" True "sess_ReceivedChunks sess"]
      by (simp add: transfer_complete_def session1_def)
    have "sess_TotalChunks session1 = 0" "\<not> file_closed (sess_File session1)"
      using tc op File_WriteAt_Inr[OF h(7)] by (simp_all add: session1_def)
    with nc st(2) True show ?thesis by (simp add: zero_chunk_session_def)
  qed
qed

lemma zero_chunk_session_handle:
  "zero_chunk_session s sid \<Longrightarrow> is_chunk_or_status q \<Longrightarrow>
     zero_chunk_session (snd (handle L s q)) sid"
  by (cases q) (simp_all add: zero_chunk_session_handleChunk handleStatus_state)

lemma zero_chunk_session_run:
  "zero_chunk_session s sid \<Longrightarrow> \<forall>q\<in>set reqs. is_chunk_or_status q \<Longrightarrow>
     zero_chunk_session (run L s reqs) sid"
  by (induction reqs arbitrary: s) (simp_all add: zero_chunk_session_handle)

lemma float64_div_zero:
  "float64_times100 (float64_div (int n) 0) = (if n = 0 then NaN else PosInf)"
  by (simp add: float64_div_def float64_times100_def)

lemma handleStatus_zero_chunks:
  assumes "sessions s sid = Some sess" and "sess_TotalChunks sess = 0"
  shows "stat_Progress (handleStatus_status sid sess) =
           (if fmdom (sess_ReceivedChunks sess) = {||} then NaN else PosInf)"
    and "handleStatus s sid = (RespEmpty, s)"
proof -
  show p: "stat_Progress (handleStatus_status sid sess) =
           (if fmdom (sess_ReceivedChunks sess) = {||} then NaN else PosInf)"
    using assms(2) by (simp add: handleStatus_status_def Let_def float64_div_zero)
  then have "json_Encode_TransferStatus (handleStatus_status sid sess) = RespEmpty"
    by (simp add: json_Encode_TransferStatus_def)
  with assms(1) show "handleStatus s sid = (RespEmpty, s)"
    by (simp add: handleStatus_def Let_def)
qed

text \<open>
  Claim C9, amended. An accepted handshake for a file of size 0 creates a session with
  \<^verbatim>\<open>TotalChunks = 0\<close>, nothing received and an open file. No list of chunk and status
  requests removes that session from the table or closes its file. The status value
  that \<^verbatim>\<open>handleStatus\<close> builds for the new session has progress \<open>0 / 0 * 100\<close>, which is
  NaN, but that value is not reported: the JSON encoder refuses it and the status
  request is answered with status 200 and an empty body. The same holds after any
  list of chunk and status requests, where the progress built is NaN while nothing is
  marked received and the positive infinity afterwards.
\<close>

theorem zero_size_session_never_completes:
  assumes "hs_Body r = Some req" and "Size (FileMetadata req) = 0"
    and "handleHandshake L s r = (RespHandshake resp, s')" and "Accepted resp"
  shows "(\<exists>sess. sessions s' (resp_SessionID resp) = Some sess \<and> sess_TotalChunks sess = 0 \<and>
            sess_ReceivedChunks sess = fmempty \<and> \<not> file_closed (sess_File sess)) \<and>
         (\<forall>reqs. (\<forall>q\<in>set reqs. is_chunk_or_status q) \<longrightarrow>
            (\<exists>sess. sessions (run L s' reqs) (resp_SessionID resp) = Some sess \<and>
               sess_TotalChunks sess = 0 \<and> \<not> file_closed (sess_File sess))) \<and>
         (\<exists>sess. sessions s' (resp_SessionID resp) = Some sess \<and>
            stat_TotalChunks (handleStatus_status (resp_SessionID resp) sess) = 0 \<and>
            stat_ReceivedChunks (handleStatus_status (resp_SessionID resp) sess) = {||} \<and>
            stat_Progress (handleStatus_status (resp_SessionID resp) sess) = NaN \<and>
            handle L s' (ReqStatus (resp_SessionID resp)) = (RespEmpty, s')) \<and>
         (\<forall>reqs. (\<forall>q\<in>set reqs. is_chunk_or_status q) \<longrightarrow>
            (\<exists>sess. sessions (run L s' reqs) (resp_SessionID resp) = Some sess \<and>
               stat_Progress (handleStatus_status (resp_SessionID resp) sess) =
                 (if fmdom (sess_ReceivedChunks sess) = {||} then NaN else PosInf) \<and>
               handle L (run L s' reqs) (ReqStatus (resp_SessionID resp)) =
                 (RespEmpty, run L s' reqs)))"
proof -
  have tc0: "handleHandshake_totalChunks 0 = 0"
    by (simp add: handleHandshake_totalChunks_def)
  have fresh: "\<exists>sess. sessions s' (resp_SessionID resp) = Some sess \<and> sess_TotalChunks sess = 0 \<and>
            sess_ReceivedChunks sess = fmempty \<and> \<not> file_closed (sess_File sess)"
  proof (rule handleHandshake_cases[where L=L and s=s and r=r])
    assume "\<forall>resp. fst (handleHandshake L s r) = RespHandshake resp \<longrightarrow> \<not> Accepted resp"
    with assms(3,4) show ?thesis by simp
  next
    fix req' privKey pubKey sessionKey
    assume b: "hs_Body r = Some req'"
      and eq: "handleHandshake L s r =
         (RespHandshake \<lparr>Accepted = True, resp_EphemeralPubKey = Some pubKey,
                         resp_SessionID = hs_uuid r, Message = ''Transfer accepted''\<rparr>,
          s\<lparr>sessions := (sessions s)(hs_uuid r \<mapsto>
              \<lparr>sess_SessionID = hs_uuid r,
               sess_SenderName = DeviceName req',
               sess_Fingerprint = DeviceFingerprint req',
               sess_Metadata = FileMetadata req',
               sess_SessionKey = sessionKey,
               sess_TotalChunks = handleHandshake_totalChunks (Size (FileMetadata req')),
               sess_ReceivedChunks = fmempty,
               sess_FilePath = filepath_Join (downloadDir s) (Name (FileMetadata req')),
               sess_File = \<lparr>file_name = filepath_Join (downloadDir s) (Name (FileMetadata req')),
                            file_writes = [], file_closed = False\<rparr>\<rparr>)\<rparr>)"
    from b assms(1) have "req' = req" by simp
    with eq assms(2,3) tc0 show ?thesis by auto
  qed
  then obtain sess where sess: "sessions s' (resp_SessionID resp) = Some sess"
      "sess_TotalChunks sess = 0" "sess_ReceivedChunks sess = fmempty"
      "\<not> file_closed (sess_File sess)"
    by blast
  then have z: "zero_chunk_session s' (resp_SessionID resp)"
    by (auto simp: zero_chunk_session_def)
  have persists: "\<forall>reqs. (\<forall>q\<in>set reqs. is_chunk_or_status q) \<longrightarrow>
            (\<exists>sess. sessions (run L s' reqs) (resp_SessionID resp) = Some sess \<and>
               sess_TotalChunks sess = 0 \<and> \<not> file_closed (sess_File sess))"
    using zero_chunk_session_run[OF z] by (simp add: zero_chunk_session_def)
  have status: "\<exists>sess. sessions s' (resp_SessionID resp) = Some sess \<and>
            stat_TotalChunks (handleStatus_status (resp_SessionID resp) sess) = 0 \<and>
            stat_ReceivedChunks (handleStatus_status (resp_SessionID resp) sess) = {||} \<and>
            stat_Progress (handleStatus_status (resp_SessionID resp) sess) = NaN \<and>
            handle L s' (ReqStatus (resp_SessionID resp)) = (RespEmpty, s')"
    using sess handleStatus_zero_chunks[OF sess(1,2)]
    by (simp add: handleStatus_status_def Let_def)
  have later: "\<forall>reqs. (\<forall>q\<in>set reqs. is_chunk_or_status q) \<longrightarrow>
            (\<exists>sess. sessions (run L s' reqs) (resp_SessionID resp) = Some sess \<and>
               stat_Progress (handleStatus_status (resp_SessionID resp) sess) =
                 (if fmdom (sess_ReceivedChunks sess) = {||} then NaN else PosInf) \<and>
               handle L (run L s' reqs) (ReqStatus (resp_SessionID resp)) =
                 (RespEmpty, run L s' reqs))"
  proof (intro allI impI)
    fix reqs assume "\<forall>q\<in>set reqs. is_chunk_or_status q"
    with persists obtain sess1 where s1:
        "sessions (run L s' reqs) (resp_SessionID resp) = Some sess1" "sess_TotalChunks sess1 = 0"
      by blast
    from handleStatus_zero_chunks[OF s1] s1(1)
    show "\<exists>sess. sessions (run L s' reqs) (resp_SessionID resp) = Some sess \<and>
               stat_Progress (handleStatus_status (resp_SessionID resp) sess) =
                 (if fmdom (sess_ReceivedChunks sess) = {||} then NaN else PosInf) \<and>
               handle L (run L s' reqs) (ReqStatus (resp_SessionID resp)) =
                 (RespEmpty, run L s' reqs)"
      by simp
  qed
  from fresh persists status later show ?thesis by blast
qed

section \<open>The sample run\<close>

lemma sample_handshake_result:
  "handleHandshake sample_lib sample_server (sample_handshake sz sid) =
     (RespHandshake \<lparr>Accepted = True,
                     resp_EphemeralPubKey = Some (map2 (XOR) (replicate 32 2) (9 # replicate 31 0)),
                     resp_SessionID = sid, Message = ''Transfer accepted''\<rparr>,
      sample_server\<lparr>sessions := (sessions sample_server)(sid \<mapsto> sample_session sz sid)\<rparr>)"
  by (simp add: handleHandshake_def sample_lib_def sample_server_def sample_handshake_def
      GenerateEphemeralKey_def DeriveSharedSecret_def rand_Read_def Basepoint_def os_Create_def
      filepath_Join_def Let_def sample_session_def)

lemma sample_server_after_eq:
  "sample_server_after sz sid =
     sample_server\<lparr>sessions := (sessions sample_server)(sid \<mapsto> sample_session sz sid)\<rparr>"
  by (simp only: sample_server_after_def sample_handshake_result snd_conv)

lemma sample_server_after_closed: "closed_sessions (sample_server_after sz sid) = []"
  by (subst sample_server_after_eq) (simp add: sample_server_def)

lemma sample_server_after_sessions:
  "sessions (sample_server_after sz sid) sid = Some (sample_session sz sid)"
  by (subst sample_server_after_eq) simp

lemma sample_DecryptChunk:
  "DecryptChunk sample_lib (replicate 12 7 @ [1, 2, 3] @ replicate 16 3) (replicate 32 3) = Inr [1, 2, 3]"
  by (simp add: DecryptChunk_def aes_NewCipher_def gcm_NonceSize_def sample_lib_def Let_def)

lemma sample_CalculateChunkChecksum:
  "CalculateChunkChecksum sample_lib [1, 2, 3] = sample_checksum"
  by code_simp

lemma sample_totalChunks:
  "handleHandshake_totalChunks 10 = 1" "handleHandshake_totalChunks 6291456 = 2"
  "handleHandshake_totalChunks 0 = 0"
  by (simp_all add: handleHandshake_totalChunks_def signed_divide_int_def signed_modulo_int_def)

lemma sample_chunk_fields:
  "ch_Method (sample_chunk sid i c) = ''POST''"
  "ch_Metadata (sample_chunk sid i c) =
     Some \<lparr>cm_Index = i, cm_Total = 1, cm_Size = 3, cm_Checksum = c, cm_SessionID = sid\<rparr>"
  "ch_Body (sample_chunk sid i c) = Some (replicate 12 7 @ [1, 2, 3] @ replicate 16 3)"
  "ch_disk_ok (sample_chunk sid i c)"
  by (simp_all add: sample_chunk_def)

lemma sample_chunk_hyps:
  fixes sz :: int and sid :: string and i :: int
  defines "r \<equiv> sample_chunk sid i sample_checksum"
    and "md \<equiv> \<lparr>cm_Index = i, cm_Total = 1, cm_Size = 3, cm_Checksum = sample_checksum,
                  cm_SessionID = sid\<rparr>"
    and "s \<equiv> sample_server_after sz sid"
    and "enc \<equiv> replicate 12 7 @ [1, 2, 3] @ replicate 16 (3::byte)"
  shows "ch_Method r = ''POST''" and "ch_Metadata r = Some md"
    and "sessions s (cm_SessionID md) = Some (sample_session sz sid)"
    and "ch_Body r = Some enc"
    and "DecryptChunk sample_lib enc (sess_SessionKey (sample_session sz sid)) = Inr [1, 2, 3]"
    and "CalculateChunkChecksum sample_lib [1, 2, 3] = cm_Checksum md"
    and "ch_disk_ok r" and "\<not> file_closed (sess_File (sample_session sz sid))"
  using sample_DecryptChunk
  by (simp_all add: r_def md_def s_def enc_def sample_chunk_fields sample_server_after_sessions
      sample_CalculateChunkChecksum sample_session_def)

text \<open>
  Counterexample to C4 as stated. The session \<open>s1\<close> of a 10-byte file has
  \<^verbatim>\<open>TotalChunks = 1\<close>, so its only index is 0. A chunk with index 1 is answered with a
  success ACK, written at offset 4194304 and marked received; it even completes the
  transfer, since one index is then marked.
\<close>

theorem chunk_index_out_of_range_accepted:
  "map_option sess_TotalChunks (sessions (sample_server_after 10 ''s1'') ''s1'') = Some 1 \<and>
   fst (handleChunk sample_lib (sample_server_after 10 ''s1'') (sample_chunk ''s1'' 1 sample_checksum)) =
     RespAck \<lparr>ack_Index = 1, ack_SessionID = ''s1'', ack_Success = True, ack_Error = []\<rparr> \<and>
   map (fmdom \<circ> sess_ReceivedChunks)
     (closed_sessions (snd (handleChunk sample_lib (sample_server_after 10 ''s1'')
        (sample_chunk ''s1'' 1 sample_checksum)))) = [{|1|}] \<and>
   map (file_writes \<circ> sess_File)
     (closed_sessions (snd (handleChunk sample_lib (sample_server_after 10 ''s1'')
        (sample_chunk ''s1'' 1 sample_checksum)))) = [[(4194304, [1, 2, 3])]]"
proof -
  have w: "File_WriteAt (ch_disk_ok (sample_chunk ''s1'' 1 sample_checksum))
      (sess_File (sample_session 10 ''s1'')) [1, 2, 3]
      (int64 (cm_Index \<lparr>cm_Index = 1, cm_Total = 1, cm_Size = 3, cm_Checksum = sample_checksum,
                  cm_SessionID = ''s1''\<rparr> * 4194304)) =
      Inr \<lparr>file_name = ''downloads/f.bin'', file_writes = [(4194304, [1, 2, 3])], file_closed = False\<rparr>"
    by (simp add: File_WriteAt_def sample_session_def int64_in_range sample_chunk_fields)
  note st = handleChunk_stored_state[OF sample_chunk_hyps(1-6) w]
  note closed0 = sample_server_after_closed[of 10 "''s1''"]
  have tc: "transfer_complete (sample_session 10 ''s1''
      \<lparr>sess_File := \<lparr>file_name = ''downloads/f.bin'', file_writes = [(4194304, [1, 2, 3])], file_closed = False\<rparr>,
       sess_ReceivedChunks := fmupd 1 True (sess_ReceivedChunks (sample_session 10 ''s1''))\<rparr>)"
    by (simp add: transfer_complete_def sample_session_def sample_totalChunks fcard_finsert_if)
  show ?thesis
    using st(1) st(3) tc closed0
    by (simp add: sample_server_after_sessions sample_session_def sample_totalChunks File_Close_def)
qed

lemma sample_bad_chunk_hyps:
  fixes sz :: int and sid :: string
  defines "r \<equiv> sample_bad_chunk sid"
    and "md \<equiv> \<lparr>cm_Index = 0, cm_Total = 1, cm_Size = 3, cm_Checksum = ''00'', cm_SessionID = sid\<rparr>"
    and "enc \<equiv> replicate 12 7 @ [1, 2, 3] @ replicate 16 (3::byte)"
  shows "ch_Method r = ''POST''" and "ch_Metadata r = Some md"
    and "sessions (sample_server_after sz sid) (cm_SessionID md) = Some (sample_session sz sid)"
    and "ch_Body r = Some enc"
    and "DecryptChunk sample_lib enc (sess_SessionKey (sample_session sz sid)) = Inr [1, 2, 3]"
    and "CalculateChunkChecksum sample_lib [1, 2, 3] \<noteq> cm_Checksum md"
  using sample_DecryptChunk
  by (simp_all add: r_def md_def enc_def sample_bad_chunk_def sample_chunk_fields
      sample_server_after_sessions sample_CalculateChunkChecksum sample_session_def
      sample_checksum_def)

lemma sample_bad_chunk_result:
  "handleChunk sample_lib (sample_server_after sz sid) (sample_bad_chunk sid) =
     (RespAck \<lparr>ack_Index = 0, ack_SessionID = sid, ack_Success = False,
               ack_Error = ''Checksum mismatch''\<rparr>, sample_server_after sz sid)"
  using handleChunk_checksum_mismatch[OF sample_bad_chunk_hyps] by simp

lemma sample_File_WriteAt:
  "0 \<le> i \<Longrightarrow> i < 2 ^ 41 \<Longrightarrow>
   File_WriteAt (ch_disk_ok (sample_chunk sid i sample_checksum))
      (sess_File (sample_session sz sid)) [1, 2, 3]
      (int64 (cm_Index \<lparr>cm_Index = i, cm_Total = 1, cm_Size = 3, cm_Checksum = sample_checksum,
                  cm_SessionID = sid\<rparr> * 4194304)) =
      Inr \<lparr>file_name = ''downloads/f.bin'', file_writes = [(i * 4194304, [1, 2, 3])],
           file_closed = False\<rparr>"
  by (simp add: File_WriteAt_def sample_session_def int64_chunk_offset sample_chunk_fields)

text \<open>
  Witness for the amended C4: index 5 of a two-chunk session is accepted and written at
  offset 20971520, and a chunk with a wrong checksum changes nothing.
\<close>

theorem chunk_ack_without_range_check_witness:
  "sess_TotalChunks (sample_session 6291456 ''s2'') = 2 \<and>
   is_success_ack (fst (handleChunk sample_lib (sample_server_after 6291456 ''s2'')
      (sample_chunk ''s2'' 5 sample_checksum))) \<and>
   (\<exists>sess1. (sessions (snd (handleChunk sample_lib (sample_server_after 6291456 ''s2'')
                  (sample_chunk ''s2'' 5 sample_checksum))) ''s2'' = Some sess1 \<or>
              sess1 \<in> set (closed_sessions (snd (handleChunk sample_lib
                  (sample_server_after 6291456 ''s2'') (sample_chunk ''s2'' 5 sample_checksum))))) \<and>
            5 |\<in>| fmdom (sess_ReceivedChunks sess1) \<and>
            (20971520, [1, 2, 3]) \<in> set (file_writes (sess_File sess1))) \<and>
   \<not> is_success_ack (fst (handleChunk sample_lib (sample_server_after 6291456 ''s2'')
      (sample_bad_chunk ''s2''))) \<and>
   snd (handleChunk sample_lib (sample_server_after 6291456 ''s2'') (sample_bad_chunk ''s2'')) =
     sample_server_after 6291456 ''s2''"
proof -
  have n: "sess_TotalChunks (sample_session 6291456 ''s2'') = 2"
    by (simp add: sample_session_def sample_totalChunks)
  have bad: "\<not> is_success_ack (fst (handleChunk sample_lib (sample_server_after 6291456 ''s2'')
      (sample_bad_chunk ''s2'')))"
    by (simp add: sample_bad_chunk_result)
  let ?s = "sample_server_after 6291456 ''s2''"
  let ?r = "sample_chunk ''s2'' 5 sample_checksum"
  let ?md = "\<lparr>cm_Index = 5, cm_Total = 1, cm_Size = 3, cm_Checksum = sample_checksum,
               cm_SessionID = ''s2''\<rparr>"
  let ?sess = "sample_session 6291456 ''s2''"
  let ?enc = "replicate 12 7 @ [1, 2, 3] @ replicate 16 (3::byte)"
  have hyp: "ch_Method ?r = ''POST'' \<and> ch_Metadata ?r = Some ?md \<and>
    sessions ?s (cm_SessionID ?md) = Some ?sess \<and> ch_Body ?r = Some ?enc \<and>
    DecryptChunk sample_lib ?enc (sess_SessionKey ?sess) = Inr [1, 2, 3] \<and>
    CalculateChunkChecksum sample_lib [1, 2, 3] = cm_Checksum ?md \<and>
    0 \<le> cm_Index ?md \<and> cm_Index ?md < 2 ^ 41 \<and>
    \<not> file_closed (sess_File ?sess) \<and> ch_disk_ok ?r"
    by (intro conjI sample_chunk_hyps) simp_all
  from chunk_ack_without_range_check[of sample_lib ?s ?r ?md ?sess ?enc "[1, 2, 3]"] hyp
  have good: "is_success_ack (fst (handleChunk sample_lib (sample_server_after 6291456 ''s2'')
      (sample_chunk ''s2'' 5 sample_checksum))) \<and>
   (\<exists>sess1. (sessions (snd (handleChunk sample_lib (sample_server_after 6291456 ''s2'')
                  (sample_chunk ''s2'' 5 sample_checksum))) ''s2'' = Some sess1 \<or>
              sess1 \<in> set (closed_sessions (snd (handleChunk sample_lib
                  (sample_server_after 6291456 ''s2'') (sample_chunk ''s2'' 5 sample_checksum))))) \<and>
            5 |\<in>| fmdom (sess_ReceivedChunks sess1) \<and>
            (20971520, [1, 2, 3]) \<in> set (file_writes (sess_File sess1)))"
    by simp
  from chunk_ack_without_range_check[of sample_lib "sample_server_after 6291456 ''s2''"
      "sample_bad_chunk ''s2''"] bad
  have "snd (handleChunk sample_lib (sample_server_after 6291456 ''s2'') (sample_bad_chunk ''s2'')) =
     sample_server_after 6291456 ''s2''"
    by blast
  with n bad good show ?thesis by blast
qed

lemma sample_stored:
  fixes i sz :: int and sid :: string
  assumes "0 \<le> i" "i < 2 ^ 41"
  defines "session1 \<equiv> (sample_session sz sid)
      \<lparr>sess_File := \<lparr>file_name = ''downloads/f.bin'', file_writes = [(i * 4194304, [1, 2, 3])],
                      file_closed = False\<rparr>,
       sess_ReceivedChunks := fmupd i True fmempty\<rparr>"
  shows "fst (handleChunk sample_lib (sample_server_after sz sid) (sample_chunk sid i sample_checksum)) =
           RespAck \<lparr>ack_Index = i, ack_SessionID = sid, ack_Success = True, ack_Error = []\<rparr>"
    and "sessions (snd (handleChunk sample_lib (sample_server_after sz sid)
             (sample_chunk sid i sample_checksum))) =
           (if handleHandshake_totalChunks sz = 1
            then (sessions (sample_server_after sz sid))(sid := None)
            else (sessions (sample_server_after sz sid))(sid \<mapsto> session1))"
proof -
  note st = handleChunk_stored_state[OF sample_chunk_hyps(1-6)
      sample_File_WriteAt[OF assms(1,2), where sid=sid and sz=sz]]
  have tc: "transfer_complete session1 = (handleHandshake_totalChunks sz = 1)"
    by (auto simp: transfer_complete_def session1_def sample_session_def fcard_finsert_if fcard_fempty)
  have s1: "(sample_session sz sid)
      \<lparr>sess_File := \<lparr>file_name = ''downloads/f.bin'', file_writes = [(i * 4194304, [1, 2, 3])],
                      file_closed = False\<rparr>,
       sess_ReceivedChunks := fmupd (cm_Index \<lparr>cm_Index = i, cm_Total = 1, cm_Size = 3,
           cm_Checksum = sample_checksum, cm_SessionID = sid\<rparr>) True
           (sess_ReceivedChunks (sample_session sz sid))\<rparr> = session1"
    by (simp add: session1_def sample_session_def)
  from st(1) show "fst (handleChunk sample_lib (sample_server_after sz sid) (sample_chunk sid i sample_checksum)) =
           RespAck \<lparr>ack_Index = i, ack_SessionID = sid, ack_Success = True, ack_Error = []\<rparr>"
    by simp
  from st(2) show "sessions (snd (handleChunk sample_lib (sample_server_after sz sid)
             (sample_chunk sid i sample_checksum))) =
           (if handleHandshake_totalChunks sz = 1
            then (sessions (sample_server_after sz sid))(sid := None)
            else (sessions (sample_server_after sz sid))(sid \<mapsto> session1))"
    unfolding s1 tc by simp
qed

text \<open>
  Witness for C5: the chunk declared with checksum \<open>00\<close> is rejected and the server is
  unchanged; the chunk declared with the right checksum changes the server.
\<close>

theorem checksum_mismatch_not_written_witness:
  "CalculateChunkChecksum sample_lib [1, 2, 3] \<noteq> ''00'' \<and>
   handleChunk sample_lib (sample_server_after 6291456 ''s2'') (sample_bad_chunk ''s2'') =
     (RespAck \<lparr>ack_Index = 0, ack_SessionID = ''s2'', ack_Success = False,
               ack_Error = ''Checksum mismatch''\<rparr>, sample_server_after 6291456 ''s2'') \<and>
   snd (handleChunk sample_lib (sample_server_after 6291456 ''s2'')
          (sample_chunk ''s2'' 0 sample_checksum)) \<noteq> sample_server_after 6291456 ''s2'' \<and>
   (\<exists>md sess enc pt file1.
       ch_Metadata (sample_chunk ''s2'' 0 sample_checksum) = Some md \<and>
       sessions (sample_server_after 6291456 ''s2'') (cm_SessionID md) = Some sess \<and>
       ch_Body (sample_chunk ''s2'' 0 sample_checksum) = Some enc \<and>
       DecryptChunk sample_lib enc (sess_SessionKey sess) = Inr pt \<and>
       CalculateChunkChecksum sample_lib pt = cm_Checksum md \<and>
       File_WriteAt (ch_disk_ok (sample_chunk ''s2'' 0 sample_checksum)) (sess_File sess) pt
         (int64 (cm_Index md * 4194304)) = Inr file1 \<and>
       file_writes file1 =
         file_writes (sess_File sess) @ (if pt = [] then [] else [(int64 (cm_Index md * 4194304), pt)]))"
proof -
  let ?s = "sample_server_after 6291456 ''s2''"
  let ?bad = "sample_bad_chunk ''s2''"
  let ?md = "\<lparr>cm_Index = 0, cm_Total = 1, cm_Size = 3, cm_Checksum = ''00'', cm_SessionID = ''s2''\<rparr>"
  let ?sess = "sample_session 6291456 ''s2''"
  let ?enc = "replicate 12 7 @ [1, 2, 3] @ replicate 16 (3::byte)"
  have hyp: "ch_Method ?bad = ''POST'' \<and> ch_Metadata ?bad = Some ?md \<and>
    sessions ?s (cm_SessionID ?md) = Some ?sess \<and> ch_Body ?bad = Some ?enc \<and>
    DecryptChunk sample_lib ?enc (sess_SessionKey ?sess) = Inr [1, 2, 3] \<and>
    CalculateChunkChecksum sample_lib [1, 2, 3] \<noteq> cm_Checksum ?md"
    by (intro conjI sample_bad_chunk_hyps)
  then have ne: "CalculateChunkChecksum sample_lib [1, 2, 3] \<noteq> ''00''" by simp
  from checksum_mismatch_not_written[of ?bad ?md ?s ?sess ?enc sample_lib "[1, 2, 3]"] hyp
  have rejected: "handleChunk sample_lib ?s ?bad =
     (RespAck \<lparr>ack_Index = 0, ack_SessionID = ''s2'', ack_Success = False,
               ack_Error = ''Checksum mismatch''\<rparr>, ?s)"
    by simp
  have "sessions (snd (handleChunk sample_lib ?s (sample_chunk ''s2'' 0 sample_checksum))) ''s2'' \<noteq>
        sessions ?s ''s2''"
    by (simp add: sample_stored(2) sample_totalChunks sample_server_after_sessions sample_session_def)
  then have changed: "snd (handleChunk sample_lib ?s (sample_chunk ''s2'' 0 sample_checksum)) \<noteq> ?s"
    by auto
  with checksum_mismatch_not_written[of "sample_chunk ''s2'' 0 sample_checksum" _ ?s _ _ sample_lib]
  have "\<exists>md sess enc pt file1.
       ch_Metadata (sample_chunk ''s2'' 0 sample_checksum) = Some md \<and>
       sessions (sample_server_after 6291456 ''s2'') (cm_SessionID md) = Some sess \<and>
       ch_Body (sample_chunk ''s2'' 0 sample_checksum) = Some enc \<and>
       DecryptChunk sample_lib enc (sess_SessionKey sess) = Inr pt \<and>
       CalculateChunkChecksum sample_lib pt = cm_Checksum md \<and>
       File_WriteAt (ch_disk_ok (sample_chunk ''s2'' 0 sample_checksum)) (sess_File sess) pt
         (int64 (cm_Index md * 4194304)) = Inr file1 \<and>
       file_writes file1 =
         file_writes (sess_File sess) @ (if pt = [] then [] else [(int64 (cm_Index md * 4194304), pt)])"
    by blast
  with ne rejected changed show ?thesis by blast
qed




text \<open>
  Counterexample to C9 as stated. The handshake for an empty file is accepted and its
  session \<open>s0\<close> has \<^verbatim>\<open>TotalChunks = 0\<close>. The status built for it has progress NaN, and
  the status request is answered with an empty body: no progress is reported. A chunk
  with index 0 is then accepted and marked received; the progress built becomes the
  positive infinity and the answer to a status request is again empty.
\<close>

theorem zero_size_status_reports_no_progress:
  "handleHandshake sample_lib sample_server (sample_handshake 0 ''s0'') =
     (RespHandshake \<lparr>Accepted = True,
                     resp_EphemeralPubKey = Some (map2 (XOR) (replicate 32 2) (9 # replicate 31 0)),
                     resp_SessionID = ''s0'', Message = ''Transfer accepted''\<rparr>,
      sample_server_after 0 ''s0'') \<and>
   map_option sess_TotalChunks (sessions (sample_server_after 0 ''s0'') ''s0'') = Some 0 \<and>
   map_option (stat_Progress \<circ> handleStatus_status ''s0'') (sessions (sample_server_after 0 ''s0'') ''s0'') =
     Some NaN \<and>
   handle sample_lib (sample_server_after 0 ''s0'') (ReqStatus ''s0'') =
     (RespEmpty, sample_server_after 0 ''s0'') \<and>
   (\<nexists>status. fst (handle sample_lib (sample_server_after 0 ''s0'') (ReqStatus ''s0'')) =
      RespStatus status) \<and>
   fst (handleChunk sample_lib (sample_server_after 0 ''s0'') (sample_chunk ''s0'' 0 sample_checksum)) =
     RespAck \<lparr>ack_Index = 0, ack_SessionID = ''s0'', ack_Success = True, ack_Error = []\<rparr> \<and>
   map_option (fmdom \<circ> sess_ReceivedChunks)
     (sessions (snd (handleChunk sample_lib (sample_server_after 0 ''s0'')
        (sample_chunk ''s0'' 0 sample_checksum))) ''s0'') = Some {|0|} \<and>
   map_option (stat_Progress \<circ> handleStatus_status ''s0'')
     (sessions (snd (handleChunk sample_lib (sample_server_after 0 ''s0'')
        (sample_chunk ''s0'' 0 sample_checksum))) ''s0'') = Some PosInf \<and>
   fst (handle sample_lib (snd (handleChunk sample_lib (sample_server_after 0 ''s0'')
        (sample_chunk ''s0'' 0 sample_checksum))) (ReqStatus ''s0'')) = RespEmpty"
proof -
  have hh: "handleHandshake sample_lib sample_server (sample_handshake 0 ''s0'') =
     (RespHandshake \<lparr>Accepted = True,
                     resp_EphemeralPubKey = Some (map2 (XOR) (replicate 32 2) (9 # replicate 31 0)),
                     resp_SessionID = ''s0'', Message = ''Transfer accepted''\<rparr>,
      sample_server_after 0 ''s0'')"
    by (simp only: sample_handshake_result sample_server_after_eq)
  have sess: "sessions (sample_server_after 0 ''s0'') ''s0'' = Some (sample_session 0 ''s0'')"
    by (rule sample_server_after_sessions)
  have tc: "sess_TotalChunks (sample_session 0 ''s0'') = 0"
    by (simp add: sample_session_def sample_totalChunks)
  have rc: "fmdom (sess_ReceivedChunks (sample_session 0 ''s0'')) = {||}"
    by (simp add: sample_session_def)
  note st = handleStatus_zero_chunks[OF sess tc]
  let ?s1 = "snd (handleChunk sample_lib (sample_server_after 0 ''s0'')
        (sample_chunk ''s0'' 0 sample_checksum))"
  let ?sess1 = "(sample_session 0 ''s0'')
      \<lparr>sess_File := \<lparr>file_name = ''downloads/f.bin'', file_writes = [(0 * 4194304, [1, 2, 3])],
                      file_closed = False\<rparr>,
       sess_ReceivedChunks := fmupd 0 True fmempty\<rparr>"
  note ch = sample_stored[where i=0 and sz=0 and sid="''s0''", simplified]
  have sess1: "sessions ?s1 ''s0'' = Some ?sess1"
    using ch(2) by (simp add: sample_totalChunks)
  have tc1: "sess_TotalChunks ?sess1 = 0"
    by (simp add: sample_session_def sample_totalChunks)
  note st1 = handleStatus_zero_chunks[OF sess1 tc1]
  have before: "map_option sess_TotalChunks (sessions (sample_server_after 0 ''s0'') ''s0'') = Some 0 \<and>
      map_option (stat_Progress \<circ> handleStatus_status ''s0'')
        (sessions (sample_server_after 0 ''s0'') ''s0'') = Some NaN \<and>
      handle sample_lib (sample_server_after 0 ''s0'') (ReqStatus ''s0'') =
        (RespEmpty, sample_server_after 0 ''s0'') \<and>
      (\<nexists>status. fst (handle sample_lib (sample_server_after 0 ''s0'') (ReqStatus ''s0'')) =
         RespStatus status)"
    using sess tc rc st by simp
  have after: "fst (handleChunk sample_lib (sample_server_after 0 ''s0'')
        (sample_chunk ''s0'' 0 sample_checksum)) =
     RespAck \<lparr>ack_Index = 0, ack_SessionID = ''s0'', ack_Success = True, ack_Error = []\<rparr> \<and>
   map_option (fmdom \<circ> sess_ReceivedChunks) (sessions ?s1 ''s0'') = Some {|0|} \<and>
   map_option (stat_Progress \<circ> handleStatus_status ''s0'') (sessions ?s1 ''s0'') = Some PosInf \<and>
   fst (handle sample_lib ?s1 (ReqStatus ''s0'')) = RespEmpty"
    using ch(1) sess1 st1 by simp
  from hh before after show ?thesis by blast
qed

text \<open>
  Witness for C9: the session of an empty file survives two accepted chunks, a status
  request and a rejected chunk, and a status request before or after them is answered
  with an empty body.
\<close>

theorem zero_size_session_never_completes_witness:
  "Size (FileMetadata (the (hs_Body (sample_handshake 0 ''s0'')))) = 0 \<and>
   (\<exists>resp. fst (handleHandshake sample_lib sample_server (sample_handshake 0 ''s0'')) = RespHandshake resp \<and>
      Accepted resp \<and> resp_SessionID resp = ''s0'') \<and>
   (\<exists>sess. sessions (run sample_lib (sample_server_after 0 ''s0'') sample_requests) ''s0'' = Some sess \<and>
      sess_TotalChunks sess = 0 \<and> \<not> file_closed (sess_File sess)) \<and>
   (\<exists>sess. sessions (sample_server_after 0 ''s0'') ''s0'' = Some sess \<and>
      stat_TotalChunks (handleStatus_status ''s0'' sess) = 0 \<and>
      stat_ReceivedChunks (handleStatus_status ''s0'' sess) = {||} \<and>
      stat_Progress (handleStatus_status ''s0'' sess) = NaN \<and>
      handle sample_lib (sample_server_after 0 ''s0'') (ReqStatus ''s0'') =
        (RespEmpty, sample_server_after 0 ''s0'')) \<and>
   handle sample_lib (run sample_lib (sample_server_after 0 ''s0'') sample_requests) (ReqStatus ''s0'') =
     (RespEmpty, run sample_lib (sample_server_after 0 ''s0'') sample_requests)"
proof -
  let ?r = "sample_handshake 0 ''s0''"
  let ?resp = "\<lparr>Accepted = True,
                 resp_EphemeralPubKey = Some (map2 (XOR) (replicate 32 2) (9 # replicate 31 0)),
                 resp_SessionID = ''s0'', Message = ''Transfer accepted''\<rparr>"
  have b: "hs_Body ?r = Some (the (hs_Body ?r))" by (simp add: sample_handshake_def)
  have z: "Size (FileMetadata (the (hs_Body ?r))) = 0" by (simp add: sample_handshake_def)
  have hh: "handleHandshake sample_lib sample_server ?r = (RespHandshake ?resp, sample_server_after 0 ''s0'')"
    by (simp only: sample_handshake_result sample_server_after_eq)
  have acc: "Accepted ?resp" by simp
  have reqs: "\<forall>q\<in>set sample_requests. is_chunk_or_status q"
    by (simp add: sample_requests_def)
  note th = zero_size_session_never_completes[OF b z hh acc]
  from th have persists: "\<exists>sess. sessions (run sample_lib (sample_server_after 0 ''s0'') sample_requests)
      (resp_SessionID ?resp) = Some sess \<and> sess_TotalChunks sess = 0 \<and> \<not> file_closed (sess_File sess)"
    using reqs by blast
  from th have status: "\<exists>sess. sessions (sample_server_after 0 ''s0'') (resp_SessionID ?resp) = Some sess \<and>
      stat_TotalChunks (handleStatus_status (resp_SessionID ?resp) sess) = 0 \<and>
      stat_ReceivedChunks (handleStatus_status (resp_SessionID ?resp) sess) = {||} \<and>
      stat_Progress (handleStatus_status (resp_SessionID ?resp) sess) = NaN \<and>
      handle sample_lib (sample_server_after 0 ''s0'') (ReqStatus (resp_SessionID ?resp)) =
        (RespEmpty, sample_server_after 0 ''s0'')"
    by blast
  from th have later: "handle sample_lib (run sample_lib (sample_server_after 0 ''s0'') sample_requests)
      (ReqStatus (resp_SessionID ?resp)) =
     (RespEmpty, run sample_lib (sample_server_after 0 ''s0'') sample_requests)"
    using reqs by blast
  have first: "\<exists>resp. fst (handleHandshake sample_lib sample_server ?r) = RespHandshake resp \<and>
      Accepted resp \<and> resp_SessionID resp = ''s0''"
    by (simp add: hh)
  from z first persists status later show ?thesis by simp
qed

section \<open>Properties of the container functions\<close>

lemma from_le32_le32: "from_le32 (le32 w) = w"
  apply (simp add: from_le32_def le32_def)
  apply (rule bit_word_eqI)
  apply (auto simp: bit_simps)
  subgoal for n by (cases "24 \<le> n") auto
  done

lemma length_copy_into: "length (copy_into n src) = n"
  by (simp add: copy_into_def)

lemma length_le32: "length (le32 w) = 4"
  by (simp add: le32_def)

lemma copy_into_exact: "length src = n \<Longrightarrow> copy_into n src = src"
  by (simp add: copy_into_def)

lemma binary_Read_header_Write:
  "binary_Read_header (binary_Write_header h @ rest) =
     Inr (\<lparr>Magic = copy_into 4 (Magic h), hdr_Version = hdr_Version h,
           Salt = copy_into 32 (Salt h), Argon2Time = Argon2Time h,
           Argon2Memory = Argon2Memory h, Argon2Threads = Argon2Threads h,
           Reserved = copy_into 15 (Reserved h)\<rparr>, rest)"
proof -
  define a where "a = copy_into 4 (Magic h)"
  define b where "b = le32 (hdr_Version h)"
  define c where "c = copy_into 32 (Salt h)"
  define d where "d = le32 (Argon2Time h)"
  define e where "e = le32 (Argon2Memory h)"
  define f where "f = copy_into 15 (Reserved h)"
  have len: "length a = 4" "length b = 4" "length c = 32" "length d = 4" "length e = 4"
      "length f = 15"
    by (simp_all add: a_def b_def c_def d_def e_def f_def length_copy_into length_le32)
  have w: "binary_Write_header h @ rest = a @ b @ c @ d @ e @ [Argon2Threads h] @ f @ rest"
    by (simp add: binary_Write_header_def a_def b_def c_def d_def e_def f_def)
  have rt: "from_le32 b = hdr_Version h" "from_le32 d = Argon2Time h" "from_le32 e = Argon2Memory h"
    by (simp_all add: b_def d_def e_def from_le32_le32)
  show ?thesis
    unfolding w binary_Read_header_def HeaderSize_def
    using len rt
    by (simp add: nth_append a_def[symmetric] c_def[symmetric] f_def[symmetric])
qed

lemma extract_entries_step:
  "fst (extract_entries outputPath (entry # rest) out) = Some (Error ''failed to create directory'') \<or>
   fst (extract_entries outputPath (entry # rest) out) = Some (Error ''failed to create file'') \<or>
   (\<exists>out1. extract_entries outputPath (entry # rest) out = extract_entries outputPath rest out1)"
proof (cases entry)
  case (TarDir name)
  show ?thesis
  proof (cases "out (filepath_Join outputPath name)")
    case None
    with TarDir show ?thesis by (auto simp: Let_def)
  next
    case (Some obj)
    with TarDir show ?thesis by (cases obj) (auto simp: Let_def)
  qed
next
  case (TarReg name content)
  show ?thesis
  proof (cases "out (filepath_Join outputPath name)")
    case None
    with TarReg show ?thesis by (auto simp: Let_def)
  next
    case (Some obj)
    with TarReg show ?thesis by (cases obj) (auto simp: Let_def)
  qed
qed

lemma extract_entries_error:
  "fst (extract_entries outputPath entries out) = Some e \<Longrightarrow>
     e = Error ''failed to create directory'' \<or> e = Error ''failed to create file''"
proof (induction entries arbitrary: out)
  case Nil
  then show ?case by simp
next
  case (Cons entry rest)
  from extract_entries_step[of outputPath entry rest out] Cons.prems Cons.IH
  show ?case by (metis option.inject)
qed

lemma wrap_error_not_InvalidFormat:
  "wrap_error ''failed to decrypt data (wrong password?)'' e \<noteq> Error ''invalid container format''"
  by (cases e) simp_all

lemma ExtractContainer_bad_magic:
  assumes "fs containerPath = Some cdata" and "binary_Read_header cdata = Inr (header, rest)"
    and "Magic header \<noteq> MagicBytes"
  shows "ExtractContainer L fs out containerPath outputPath password =
           (Some (Error ''invalid container format''), out, [])"
  using assms by (simp add: ExtractContainer_def)

lemma ExtractContainer_good_magic:
  assumes "fs containerPath = Some cdata" and "binary_Read_header cdata = Inr (header, rest)"
    and "Magic header = MagicBytes"
  shows "snd (snd (ExtractContainer L fs out containerPath outputPath password)) =
           [(password, Salt header, Argon2Time header, Argon2Memory header, Argon2Threads header)]"
    and "\<not> InvalidFormat (fst (ExtractContainer L fs out containerPath outputPath password))"
proof -
  let ?call = "(password, Salt header, Argon2Time header, Argon2Memory header, Argon2Threads header)"
  let ?r = "ExtractContainer L fs out containerPath outputPath password"
  have "snd (snd ?r) = [?call] \<and> fst ?r \<noteq> Some (Error ''invalid container format'')"
  proof (cases "DeriveKey L password (Salt header) (Argon2Time header) (Argon2Memory header)
                  (Argon2Threads header)")
    case (Inl e)
    then have "\<exists>m. e = Panic m" by (auto simp: DeriveKey_def split: if_splits)
    with Inl assms show ?thesis by (auto simp: ExtractContainer_def Let_def)
  next
    case key: (Inr key)
    show ?thesis
    proof (cases "DecryptStream L rest key")
      case (Inl e)
      with key assms show ?thesis
        by (simp add: ExtractContainer_def Let_def wrap_error_not_InvalidFormat)
    next
      case buf: (Inr buf)
      show ?thesis
      proof (cases "targz_Read L buf")
        case None
        with key buf assms show ?thesis by (simp add: ExtractContainer_def Let_def)
      next
        case (Some red)
        obtain entries eof where red: "red = (entries, eof)" by (cases red)
        obtain r1 out1 where ex: "extract_entries outputPath entries out = (r1, out1)"
          by (cases "extract_entries outputPath entries out")
        show ?thesis
        proof (cases r1)
          case None
          with key buf Some red ex assms show ?thesis
            by (simp add: ExtractContainer_def Let_def)
        next
          case (Some e)
          with ex have "fst (extract_entries outputPath entries out) = Some e" by simp
          from extract_entries_error[OF this] have "e \<noteq> Error ''invalid container format''"
            by auto
          with key buf \<open>targz_Read L buf = Some red\<close> red ex Some assms show ?thesis
            by (simp add: ExtractContainer_def Let_def)
        qed
      qed
    qed
  qed
  then show "snd (snd ?r) = [?call]" and "\<not> InvalidFormat (fst ?r)"
    by (simp_all add: InvalidFormat_def)
qed

text \<open>
  Claim C3, as amended. For a container file whose 64-byte header can be read:
  when the magic differs from the four bytes \<open>S F M 0x00\<close>, \<^verbatim>\<open>ExtractContainer\<close> returns the
  invalid-format error without any call to \<^verbatim>\<open>DeriveKey\<close> and without touching the
  output; when the magic is right, \<^verbatim>\<open>DeriveKey\<close> is called once with the salt and the
  parameters of the header and the result is never the invalid-format error, whatever
  the version field holds.
\<close>

theorem bad_magic_rejected_before_DeriveKey:
  assumes "fs containerPath = Some cdata" and "binary_Read_header cdata = Inr (header, rest)"
  shows "(Magic header \<noteq> MagicBytes \<longrightarrow>
            InvalidFormat (fst (ExtractContainer L fs out containerPath outputPath password)) \<and>
            snd (snd (ExtractContainer L fs out containerPath outputPath password)) = [] \<and>
            fst (snd (ExtractContainer L fs out containerPath outputPath password)) = out) \<and>
         (Magic header = MagicBytes \<longrightarrow>
            \<not> InvalidFormat (fst (ExtractContainer L fs out containerPath outputPath password)) \<and>
            snd (snd (ExtractContainer L fs out containerPath outputPath password)) =
              [(password, Salt header, Argon2Time header, Argon2Memory header,
                Argon2Threads header)])"
  using ExtractContainer_bad_magic[where fs=fs and containerPath=containerPath and cdata=cdata
      and header=header and rest=rest and L=L and out=out and outputPath=outputPath
      and password=password]
    ExtractContainer_good_magic[where fs=fs and containerPath=containerPath and cdata=cdata
      and header=header and rest=rest and L=L and out=out and outputPath=outputPath
      and password=password]
    assms
  by (simp add: InvalidFormat_def)

lemma DecryptStream_key32:
  "length key = 32 \<Longrightarrow>
     DecryptStream L reader key =
       (if length reader < 12 then Inl (Error ''failed to read nonce'') else Inl NewCTR_panic)"
  by (simp add: DecryptStream_def aes_NewCipher_def NonceSize_def cipher_NewCTR_def
      aes_BlockSize_def Let_def NewCTR_panic_def)

lemma EncryptStream_key32:
  "length key = 32 \<Longrightarrow> rnd = Some nr \<Longrightarrow> 12 \<le> length nr \<Longrightarrow>
     EncryptStream L rnd True reader key = (Some NewCTR_panic, take 12 nr)"
  by (simp add: EncryptStream_def aes_NewCipher_def gcm_NonceSize_def cipher_NewCTR_def
      aes_BlockSize_def rand_Read_def NewCTR_panic_def)

lemma DeriveKey_ok:
  "1 \<le> t \<Longrightarrow> 1 \<le> th \<Longrightarrow>
     DeriveKey L password salt t m th = Inr (argon2_IDKey L (bytes_of_string password) salt t m th 32)"
  by (auto simp: DeriveKey_def KeySize_def not_less)

lemma CreateContainer_result:
  assumes "salt_rand env = Some sr" and "32 \<le> length sr"
    and "nonce_rand env = Some nr" and "12 \<le> length nr"
    and "create_ok env" and "write_ok env" and "tree = Some node"
    and "1 \<le> argon2Time" and "1 \<le> argon2Threads"
    and "length (argon2_IDKey L (bytes_of_string password) (take 32 sr) argon2Time argon2Memory
           argon2Threads 32) = 32"
  shows "CreateContainer L env tree fs sourcePath containerPath password
           argon2Time argon2Memory argon2Threads =
         (Some NewCTR_panic,
          fs(containerPath \<mapsto>
               binary_Write_header
                 \<lparr>Magic = MagicBytes, hdr_Version = Version, Salt = take 32 sr,
                  Argon2Time = argon2Time, Argon2Memory = argon2Memory,
                  Argon2Threads = argon2Threads, Reserved = replicate 15 0\<rparr> @ take 12 nr))"
proof -
  have salt: "GenerateSalt (salt_rand env) = Inr (take 32 sr)"
    using assms(1,2) by (simp add: GenerateSalt_def rand_Read_def SaltSize_def)
  note key = DeriveKey_ok[OF assms(8,9), of L password "take 32 sr" argon2Memory]
  have arch: "addToArchive tree sourcePath [] =
      Inr (map (archive_entry sourcePath []) (walk sourcePath node))"
    using assms(7) by (simp add: addToArchive_def)
  note enc = EncryptStream_key32[OF assms(10,3,4), of L]
  have cp: "copy_into 4 MagicBytes = MagicBytes" "copy_into 32 (take 32 sr) = take 32 sr"
    using assms(2) by (simp_all add: copy_into_exact MagicBytes_def)
  show ?thesis
    by (simp add: CreateContainer_def salt key assms(5,6) arch enc cp Let_def NewCTR_panic_def)
qed

lemma ExtractContainer_created:
  assumes "salt_rand env = Some sr" and "32 \<le> length sr"
    and "nonce_rand env = Some nr" and "12 \<le> length nr"
    and "create_ok env" and "write_ok env" and "tree = Some node"
    and "1 \<le> argon2Time" and "1 \<le> argon2Threads"
    and "\<forall>pw. length (argon2_IDKey L pw (take 32 sr) argon2Time argon2Memory argon2Threads 32) = 32"
  shows "ExtractContainer L
           (snd (CreateContainer L env tree fs sourcePath containerPath password
                   argon2Time argon2Memory argon2Threads))
           out containerPath outputPath password' =
         (Some NewCTR_panic, out,
          [(password', take 32 sr, argon2Time, argon2Memory, argon2Threads)])"
proof -
  let ?h = "\<lparr>Magic = MagicBytes, hdr_Version = Version, Salt = take 32 sr,
                  Argon2Time = argon2Time, Argon2Memory = argon2Memory,
                  Argon2Threads = argon2Threads, Reserved = replicate 15 0\<rparr>"
  let ?fs = "fs(containerPath \<mapsto> binary_Write_header ?h @ take 12 nr)"
  have len: "length (argon2_IDKey L (bytes_of_string pw) (take 32 sr) argon2Time argon2Memory
           argon2Threads 32) = 32" for pw
    using assms(10) by simp
  have created: "snd (CreateContainer L env tree fs sourcePath containerPath password
                        argon2Time argon2Memory argon2Threads) = ?fs"
    using CreateContainer_result[OF assms(1-9) len, of fs sourcePath containerPath] by simp
  have cp: "copy_into 4 MagicBytes = MagicBytes" "copy_into 32 (take 32 sr) = take 32 sr"
      "copy_into 15 (replicate 15 0) = replicate 15 0"
    using assms(2) by (simp_all add: copy_into_exact MagicBytes_def)
  have rd: "binary_Read_header (binary_Write_header ?h @ take 12 nr) = Inr (?h, take 12 nr)"
    by (simp add: binary_Read_header_Write cp)
  note key = DeriveKey_ok[OF assms(8,9), of L password' "take 32 sr" argon2Memory]
  have dec: "DecryptStream L (take 12 nr)
      (argon2_IDKey L (bytes_of_string password') (take 32 sr) argon2Time argon2Memory
           argon2Threads 32) = Inl NewCTR_panic"
    using assms(4) by (simp add: DecryptStream_key32[OF len])
  have "ExtractContainer L ?fs out containerPath outputPath password' =
         (Some NewCTR_panic, out,
          [(password', take 32 sr, argon2Time, argon2Memory, argon2Threads)])"
    by (simp add: ExtractContainer_def rd key dec Let_def NewCTR_panic_def)
  then show ?thesis unfolding created .
qed

text \<open>
  Claim C2 fails on the code. \<^verbatim>\<open>EncryptStream\<close> draws a nonce of \<^verbatim>\<open>gcm.NonceSize()\<close>,
  12 bytes, writes it, and hands it to \<^verbatim>\<open>cipher.NewCTR\<close> as the IV of an AES block,
  which must be 16 bytes long. So whenever \<^verbatim>\<open>CreateContainer\<close> gets as far as
  encrypting (salt and nonce drawn, key derived, file created and writable, source
  found), it panics
  and leaves a container file of 76 bytes, header and nonce; and \<^verbatim>\<open>ExtractContainer\<close>
  with the same password panics on that file in \<^verbatim>\<open>DecryptStream\<close> in the same way,
  extracting nothing. The last hypothesis states that \<^verbatim>\<open>argon2.IDKey\<close> returns a key
  of the requested 32 bytes.
\<close>

theorem CreateContainer_panics:
  assumes "salt_rand env = Some sr" and "32 \<le> length sr"
    and "nonce_rand env = Some nr" and "12 \<le> length nr"
    and "create_ok env" and "write_ok env" and "tree = Some node"
    and "1 \<le> argon2Time" and "1 \<le> argon2Threads"
    and "\<forall>pw. length (argon2_IDKey L pw (take 32 sr) argon2Time argon2Memory argon2Threads 32) = 32"
  shows "fst (CreateContainer L env tree fs sourcePath containerPath password
                argon2Time argon2Memory argon2Threads) = Some NewCTR_panic \<and>
         map_option length
           (snd (CreateContainer L env tree fs sourcePath containerPath password
                   argon2Time argon2Memory argon2Threads) containerPath) = Some 76 \<and>
         ExtractContainer L
           (snd (CreateContainer L env tree fs sourcePath containerPath password
                   argon2Time argon2Memory argon2Threads))
           out containerPath outputPath password =
         (Some NewCTR_panic, out,
          [(password, take 32 sr, argon2Time, argon2Memory, argon2Threads)])"
proof -
  have len: "length (argon2_IDKey L (bytes_of_string password) (take 32 sr) argon2Time argon2Memory
           argon2Threads 32) = 32"
    using assms(10) by simp
  have hl: "length (binary_Write_header h) = 64" for h
    by (simp add: binary_Write_header_def length_copy_into length_le32)
  from CreateContainer_result[OF assms(1-9) len, of fs sourcePath containerPath]
    ExtractContainer_created[OF assms, of fs sourcePath containerPath password out outputPath password]
    assms(4)
  show ?thesis by (simp add: hl)
qed

text \<open>
  Claim C1 fails on the code. Opening what \<^verbatim>\<open>CreateContainer\<close> left behind with any
  password, the right one or a wrong one, ends in the panic of \<^verbatim>\<open>cipher.NewCTR\<close>,
  which is not the "wrong password" error of line 110. (\<open>DecryptStream_key32\<close> above
  shows more: for a 32-byte key the outcome of \<^verbatim>\<open>DecryptStream\<close> depends on the length
  of its input only, never on the key, since no tag is checked.)
\<close>

theorem created_container_never_reports_wrong_password:
  assumes "salt_rand env = Some sr" and "32 \<le> length sr"
    and "nonce_rand env = Some nr" and "12 \<le> length nr"
    and "create_ok env" and "write_ok env" and "tree = Some node"
    and "1 \<le> argon2Time" and "1 \<le> argon2Threads"
    and "\<forall>pw. length (argon2_IDKey L pw (take 32 sr) argon2Time argon2Memory argon2Threads 32) = 32"
  shows "fst (ExtractContainer L
                (snd (CreateContainer L env tree fs sourcePath containerPath password
                        argon2Time argon2Memory argon2Threads))
                out containerPath outputPath password') = Some NewCTR_panic \<and>
         \<not> AuthenticationFailed
             (fst (ExtractContainer L
                (snd (CreateContainer L env tree fs sourcePath containerPath password
                        argon2Time argon2Memory argon2Threads))
                out containerPath outputPath password'))"
  using ExtractContainer_created[OF assms, of fs sourcePath containerPath password out outputPath password']
  by (simp add: AuthenticationFailed_def NewCTR_panic_def)

lemma sample_container_env_fields:
  "salt_rand sample_container_env = Some (replicate 32 9)" "32 \<le> length (replicate 32 (9::byte))"
  "nonce_rand sample_container_env = Some (replicate 12 7)" "12 \<le> length (replicate 12 (7::byte))"
  "create_ok sample_container_env" "write_ok sample_container_env"
  by (simp_all add: sample_container_env_def)

lemma sample_argon2_length: "length (argon2_IDKey sample_lib pw salt t m th 32) = 32"
  by (auto simp: sample_lib_def)

text \<open>
  The failing input of C2: the file \<open>hello.txt\<close> holding
  \<^verbatim>\<open>Hello, SecureFileManager!\<close> and a newline, password \<open>correct horse\<close>,
  Argon2 parameters 3, 65536, 4.
\<close>

theorem CreateContainer_panics_witness:
  "fst sample_created = Some NewCTR_panic \<and>
   map_option length (snd sample_created ''hello.sfm'') = Some 76 \<and>
   fst (ExtractContainer sample_lib (snd sample_created) Map.empty ''hello.sfm'' ''out''
          ''correct horse'') = Some NewCTR_panic"
proof -
  have one: "(1::32 word) \<le> 3" "(1::8 word) \<le> 4" by simp_all
  have len: "\<forall>pw. length (argon2_IDKey sample_lib pw (take 32 (replicate 32 9)) 3 65536 4 32) = 32"
    using sample_argon2_length by blast
  note th = CreateContainer_panics[OF sample_container_env_fields refl one len,
      where fs=Map.empty and sourcePath="''hello.txt''" and containerPath="''hello.sfm''"
        and node=sample_file_tree and password="''correct horse''" and out=Map.empty
        and outputPath="''out''"]
  from th show ?thesis by (simp add: sample_created_def)
qed

text \<open>
  The failing input of C1: the container of \<open>hello.txt\<close> created with
  \<open>correct horse\<close>, opened with \<open>Tr0ub4dor\<close>.
\<close>

theorem created_container_never_reports_wrong_password_witness:
  "''Tr0ub4dor'' \<noteq> ''correct horse'' \<and>
   fst (ExtractContainer sample_lib (snd sample_created) Map.empty ''hello.sfm'' ''out'' ''Tr0ub4dor'') =
     Some NewCTR_panic \<and>
   \<not> AuthenticationFailed
       (fst (ExtractContainer sample_lib (snd sample_created) Map.empty ''hello.sfm'' ''out''
               ''Tr0ub4dor''))"
proof -
  have one: "(1::32 word) \<le> 3" "(1::8 word) \<le> 4" by simp_all
  have len: "\<forall>pw. length (argon2_IDKey sample_lib pw (take 32 (replicate 32 9)) 3 65536 4 32) = 32"
    using sample_argon2_length by blast
  note th = created_container_never_reports_wrong_password[OF sample_container_env_fields refl one len,
      where fs=Map.empty and sourcePath="''hello.txt''" and containerPath="''hello.sfm''"
        and node=sample_file_tree and password="''correct horse''" and out=Map.empty
        and outputPath="''out''" and password'="''Tr0ub4dor''"]
  from th show ?thesis
    by (simp add: sample_created_def AuthenticationFailed_def NewCTR_panic_def)
qed

lemma sample_read_v2:
  "binary_Read_header sample_container_v2 = Inr (sample_header_v2, [])"
  using binary_Read_header_Write[of sample_header_v2 "[]"]
  by (simp add: sample_container_v2_def sample_header_v2_def copy_into_exact MagicBytes_def)

lemma sample_read_bad_magic:
  "binary_Read_header sample_container_bad_magic =
     Inr (sample_header_v2\<lparr>Magic := [0x53, 0x46, 0x4D, 0x01], hdr_Version := 1\<rparr>, [])"
  using binary_Read_header_Write[of "sample_header_v2\<lparr>Magic := [0x53, 0x46, 0x4D, 0x01], hdr_Version := 1\<rparr>" "[]"]
  by (simp add: sample_container_bad_magic_def sample_header_v2_def copy_into_exact)

text \<open>
  Counterexample to C3 as stated. A container with the right magic and version 2 (the
  code writes and knows only version 1) is not rejected as an invalid format:
  \<^verbatim>\<open>DeriveKey\<close> is called with its salt and parameters, and the error that follows
  comes from the missing body.
\<close>

theorem unsupported_version_reaches_DeriveKey:
  "hdr_Version (fst (projr (binary_Read_header sample_container_v2))) = 2 \<and> Version = 1 \<and>
   Magic (fst (projr (binary_Read_header sample_container_v2))) = MagicBytes \<and>
   \<not> InvalidFormat (fst (ExtractContainer sample_lib [''c.sfm'' \<mapsto> sample_container_v2] Map.empty
                           ''c.sfm'' ''out'' ''pw'')) \<and>
   snd (snd (ExtractContainer sample_lib [''c.sfm'' \<mapsto> sample_container_v2] Map.empty
               ''c.sfm'' ''out'' ''pw'')) = [(''pw'', replicate 32 9, 3, 65536, 4)]"
proof -
  have k: "DeriveKey sample_lib ''pw'' (replicate 32 9) 3 65536 4 =
      Inr (argon2_IDKey sample_lib (bytes_of_string ''pw'') (replicate 32 9) 3 65536 4 32)"
    by (rule DeriveKey_ok) simp_all
  have d: "DecryptStream sample_lib []
      (argon2_IDKey sample_lib (bytes_of_string ''pw'') (replicate 32 9) 3 65536 4 32) =
      Inl (Error ''failed to read nonce'')"
    by (simp add: DecryptStream_key32[OF sample_argon2_length])
  have r: "ExtractContainer sample_lib [''c.sfm'' \<mapsto> sample_container_v2] Map.empty
             ''c.sfm'' ''out'' ''pw'' =
           (Some (Error ''failed to decrypt data (wrong password?): failed to read nonce''),
            Map.empty, [(''pw'', replicate 32 9, 3, 65536, 4)])"
    by (simp add: ExtractContainer_def sample_read_v2 sample_header_v2_def k d Let_def)
  show ?thesis
    by (simp add: r sample_read_v2 InvalidFormat_def Version_def)
       (simp add: sample_header_v2_def)
qed

text \<open>
  Witness for the amended C3: one container with a wrong magic, one with the right
  magic.
\<close>

theorem bad_magic_rejected_before_DeriveKey_witness:
  "Magic (fst (projr (binary_Read_header sample_container_bad_magic))) \<noteq> MagicBytes \<and>
   InvalidFormat (fst (ExtractContainer sample_lib [''c.sfm'' \<mapsto> sample_container_bad_magic]
                         Map.empty ''c.sfm'' ''out'' ''pw'')) \<and>
   snd (snd (ExtractContainer sample_lib [''c.sfm'' \<mapsto> sample_container_bad_magic]
               Map.empty ''c.sfm'' ''out'' ''pw'')) = [] \<and>
   Magic (fst (projr (binary_Read_header sample_container_v2))) = MagicBytes \<and>
   \<not> InvalidFormat (fst (ExtractContainer sample_lib [''c.sfm'' \<mapsto> sample_container_v2] Map.empty
                           ''c.sfm'' ''out'' ''pw'')) \<and>
   snd (snd (ExtractContainer sample_lib [''c.sfm'' \<mapsto> sample_container_v2] Map.empty
               ''c.sfm'' ''out'' ''pw'')) \<noteq> []"
proof -
  have f1: "[''c.sfm'' \<mapsto> sample_container_bad_magic] ''c.sfm'' = Some sample_container_bad_magic"
    and f2: "[''c.sfm'' \<mapsto> sample_container_v2] ''c.sfm'' = Some sample_container_v2"
    by simp_all
  have m1: "Magic (sample_header_v2\<lparr>Magic := [0x53, 0x46, 0x4D, 0x01], hdr_Version := 1\<rparr>) \<noteq> MagicBytes"
    by (simp add: MagicBytes_def)
  have m2: "Magic sample_header_v2 = MagicBytes"
    by (simp add: sample_header_v2_def)
  note bad = bad_magic_rejected_before_DeriveKey[
      where fs="[''c.sfm'' \<mapsto> sample_container_bad_magic]" and containerPath="''c.sfm''"
        and L=sample_lib and out=Map.empty and outputPath="''out''" and password="''pw''",
      OF f1 sample_read_bad_magic]
  note good = bad_magic_rejected_before_DeriveKey[
      where fs="[''c.sfm'' \<mapsto> sample_container_v2]" and containerPath="''c.sfm''"
        and L=sample_lib and out=Map.empty and outputPath="''out''" and password="''pw''",
      OF f2 sample_read_v2]
  from bad good m1 m2 show ?thesis
    by (simp add: sample_read_bad_magic sample_read_v2)
qed

text \<open>
  \<^verbatim>\<open>CreateContainer\<close> always calls \<^verbatim>\<open>addToArchive\<close> with an empty \<^verbatim>\<open>baseDir\<close>, so
  every entry is named by the base name of its path. For the directory \<open>d\<close> holding
  \<open>a.txt\<close> and \<open>sub/b.txt\<close> the entries are \<open>d\<close>, \<open>a.txt\<close>, \<open>sub\<close>, \<open>b.txt\<close>, and
  extracting them under \<open>out\<close> puts all four side by side: nothing is created at
  \<open>out/d/a.txt\<close> or \<open>out/d/sub/b.txt\<close>.
\<close>

theorem directory_archive_is_flat:
  "addToArchive (Some sample_dir_tree) ''d'' [] =
     Inr [TarDir ''d'', TarReg ''a.txt'' (bytes_of_string ''A''), TarDir ''sub'',
          TarReg ''b.txt'' (bytes_of_string ''BB'')] \<and>
   map (snd (extract_entries ''out''
               [TarDir ''d'', TarReg ''a.txt'' (bytes_of_string ''A''), TarDir ''sub'',
                TarReg ''b.txt'' (bytes_of_string ''BB'')] Map.empty))
       [''out/d'', ''out/a.txt'', ''out/sub'', ''out/b.txt'', ''out/d/a.txt'', ''out/d/sub/b.txt''] =
     [Some DirObj, Some (FileObj (bytes_of_string ''A'')), Some DirObj,
      Some (FileObj (bytes_of_string ''BB'')), None, None]"
  by code_simp

end
